theory Spec2Isabelle
  imports Main "HOL-Library.Sublist"
begin

section \<open>The post-generation hook \<open>hooks/post_gen_project.py\<close>\<close>

text \<open>
  The hook is a short Python script: it lists the interpreters that \<open>pyenv\<close> knows,
  picks one, rewrites the \<open>requires-python\<close> line of \<open>pyproject.toml\<close> and runs
  \<open>pdm use\<close>. Python strings are modelled as \<^typ>\<open>string\<close>; a character is read as the
  code point of the same number (0 to 255), so the classes of characters below
  (decimal digits, white space, line boundaries) are Python's, cut to that range.
\<close>

subsection \<open>Characters and the string methods the script calls\<close>

definition newline :: char where
  "newline = CHR 0x0A"

definition carriage_return :: char where
  "carriage_return = CHR 0x0D"

definition nul :: char where
  "nul = CHR 0x00"

definition dquote :: char where
  "dquote = CHR 0x22"

definition backslash :: char where
  "backslash = CHR 0x5C"

text \<open>The class \<open>\d\<close> of a \<open>str\<close> pattern: the decimal digits.\<close>

definition is_digit :: "char \<Rightarrow> bool" where
  "is_digit c = (c \<in> set ''0123456789'')"

text \<open>
  White space as \<open>str.strip()\<close> sees it: tab to carriage return, the four separators
  \<open>0x1C\<close> to \<open>0x1F\<close>, the space, next-line \<open>0x85\<close> and the no-break space \<open>0xA0\<close>.
\<close>

definition is_space :: "char \<Rightarrow> bool" where
  "is_space c = (c \<in> set [CHR 0x09, CHR 0x0A, CHR 0x0B, CHR 0x0C, CHR 0x0D,
                           CHR 0x1C, CHR 0x1D, CHR 0x1E, CHR 0x1F, CHR 0x20,
                           CHR 0x85, CHR 0xA0])"

text \<open>\<open>s.strip()\<close>: white space removed at both ends.\<close>

definition strip :: "string \<Rightarrow> string" where
  "strip s = rev (dropWhile is_space (rev (dropWhile is_space s)))"

text \<open>The line boundaries of \<open>str.splitlines()\<close>.\<close>

definition is_linebreak :: "char \<Rightarrow> bool" where
  "is_linebreak c = (c \<in> set [CHR 0x0A, CHR 0x0B, CHR 0x0C, CHR 0x0D,
                               CHR 0x1C, CHR 0x1D, CHR 0x1E, CHR 0x85])"

text \<open>
  \<open>s.splitlines()\<close>: the lines without their terminators; a carriage return followed
  by a line feed is one terminator, a terminator at the very end opens no further line,
  and the empty string has no line.  The first argument is the line being collected.
\<close>

fun splitlines_from :: "string \<Rightarrow> string \<Rightarrow> string list" where
  "splitlines_from acc [] = (if acc = [] then [] else [rev acc])"
| "splitlines_from acc [c] =
     (if is_linebreak c then [rev acc] else [rev (c # acc)])"
| "splitlines_from acc (c # d # s) =
     (if c = CHR 0x0D \<and> d = CHR 0x0A then rev acc # splitlines_from [] s
      else if is_linebreak c then rev acc # splitlines_from [] (d # s)
      else splitlines_from (c # acc) (d # s))"

definition splitlines :: "string \<Rightarrow> string list" where
  "splitlines s = splitlines_from [] s"

text \<open>\<open>s.split(sep)\<close> for a separator of one character: never an empty list.\<close>

fun split_on :: "char \<Rightarrow> string \<Rightarrow> string list" where
  "split_on sep [] = [[]]"
| "split_on sep (c # cs) =
     (if c = sep then [] # split_on sep cs
      else (case split_on sep cs of
              [] \<Rightarrow> [[c]]
            | l # ls \<Rightarrow> (c # l) # ls))"

text \<open>\<open>sep.join(parts)\<close> for a separator of one character.\<close>

fun join_with :: "char \<Rightarrow> string list \<Rightarrow> string" where
  "join_with sep [] = []"
| "join_with sep [x] = x"
| "join_with sep (x # y # ys) = x @ sep # join_with sep (y # ys)"

subsection \<open>Exceptions\<close>

text \<open>
  The exceptions that can leave a function of the script: \<open>IndexError\<close> from an index
  out of range; \<open>FileNotFoundError\<close> (with the name that was not found) from \<open>open\<close> and
  from \<open>subprocess.run\<close>; \<open>PermissionError\<close> from \<open>open\<close>; \<open>UnicodeDecodeError\<close> from
  \<open>subprocess.run(..., text=True)\<close> and from reading a file; \<open>UnicodeEncodeError\<close>
  and any other \<open>OSError\<close> from writing a file; \<open>ValueError\<close> from \<open>subprocess.run\<close>
  on a command line with a NUL character; the error raised by \<open>re.sub\<close> on a malformed
  replacement template (\<open>re.error\<close>, or \<open>IndexError\<close> for an unknown group name); and
  \<open>CalledProcessError\<close> (with the exit status and the command) from
  \<open>subprocess.run(..., check=True)\<close>.
\<close>

datatype error =
    Index_error
  | File_not_found_error string
  | Permission_error string
  | Unicode_decode_error
  | Unicode_encode_error
  | Os_error
  | Value_error
  | Template_error
  | Called_process_error int string

text \<open>\<open>xs[-1]\<close>\<close>

definition last_item :: "'a list \<Rightarrow> error + 'a" where
  "last_item xs = (if xs = [] then Inl Index_error else Inr (last xs))"

subsection \<open>Version selection\<close>

text \<open>
  \<open>pattern.match(v)\<close> for \<open>^3\.\d+\.\d+$\<close>.  A run of digits is followed by a
  character that is no digit, so the greedy \<open>\d+\<close> never has to give a digit back and
  the match is decided left to right.  Without \<open>re.MULTILINE\<close> the \<open>$\<close> holds at the
  end of the string and also just before a line feed that ends the string.
\<close>

definition version_match :: "string \<Rightarrow> bool" where
  "version_match v =
     (case v of
        a # b # r \<Rightarrow>
          a = CHR ''3'' \<and> b = CHR ''.'' \<and> takeWhile is_digit r \<noteq> [] \<and>
          (case dropWhile is_digit r of
             [] \<Rightarrow> False
           | c # r' \<Rightarrow>
               c = CHR ''.'' \<and> takeWhile is_digit r' \<noteq> [] \<and>
               (dropWhile is_digit r' = [] \<or> dropWhile is_digit r' = [newline]))
      | _ \<Rightarrow> False)"

text \<open>\<open>".".join(v.split(".")[:2])\<close>\<close>

definition major_minor :: "string \<Rightarrow> string" where
  "major_minor v = join_with (CHR ''.'') (take 2 (split_on (CHR ''.'') v))"

text \<open>
  \<open>get_latest_installed_python_version\<close>: the candidates are filtered in their order;
  \<open>Inr None\<close> is the returned \<open>None\<close>, \<open>Inl\<close> an exception.
\<close>

definition get_latest_installed_python_version :: "string list \<Rightarrow> error + string option" where
  "get_latest_installed_python_version installed_versions =
     (let valid_installed_versions = filter version_match installed_versions in
      if valid_installed_versions \<noteq> [] then
        (case last_item valid_installed_versions of
           Inl e \<Rightarrow> Inl e
         | Inr latest_installed_version \<Rightarrow> Inr (Some (major_minor latest_installed_version)))
      else Inr None)"

subsection \<open>The substitution of \<open>re.sub\<close>\<close>

text \<open>
  The replacement string of \<open>re.sub\<close> is a template.  It is parsed once, before the
  text is searched, as CPython 3.12 does in \<open>re._parser.parse_template\<close>; for a pattern
  without groups, as the one of this script, the only group a template can name is
  group 0, the whole match.  Every malformed template is \<open>Template_error\<close>.
\<close>

datatype piece = Lit char | Whole_match

definition is_octal :: "char \<Rightarrow> bool" where
  "is_octal c = (c \<in> set ''01234567'')"

definition is_ascii_letter :: "char \<Rightarrow> bool" where
  "is_ascii_letter c =
     (c \<in> set ''abcdefghijklmnopqrstuvwxyzABCDEFGHIJKLMNOPQRSTUVWXYZ'')"

definition octal_value :: "string \<Rightarrow> nat" where
  "octal_value ds = foldl (\<lambda>n d. 8 * n + (of_char d - 48)) 0 ds"

text \<open>The table \<open>ESCAPES\<close>: \<open>\a \b \f \n \r \t \v\<close> and the doubled backslash.\<close>

definition escapes :: "char \<Rightarrow> char option" where
  "escapes c =
     (if c = CHR ''a'' then Some (CHR 0x07)
      else if c = CHR ''b'' then Some (CHR 0x08)
      else if c = CHR ''f'' then Some (CHR 0x0C)
      else if c = CHR ''n'' then Some (CHR 0x0A)
      else if c = CHR ''r'' then Some (CHR 0x0D)
      else if c = CHR ''t'' then Some (CHR 0x09)
      else if c = CHR ''v'' then Some (CHR 0x0B)
      else if c = backslash then Some backslash
      else None)"

definition then_pieces :: "piece list \<Rightarrow> error + piece list \<Rightarrow> error + piece list" where
  "then_pieces ps r = (case r of Inl e \<Rightarrow> Inl e | Inr t \<Rightarrow> Inr (ps @ t))"

function parse_template :: "string \<Rightarrow> error + piece list" where
  "parse_template [] = Inr []"
| "parse_template (c # s) =
     (if c \<noteq> backslash then then_pieces [Lit c] (parse_template s)
      else
        (case s of
           [] \<Rightarrow> Inl Template_error
         | e # s' \<Rightarrow>
             if e = CHR ''g'' then
               (case s' of
                  [] \<Rightarrow> Inl Template_error
                | lt # s'' \<Rightarrow>
                    let name = takeWhile (\<lambda>x. x \<noteq> CHR ''>'') s'';
                        rest = dropWhile (\<lambda>x. x \<noteq> CHR ''>'') s''
                    in if lt = CHR ''<'' \<and> rest \<noteq> [] \<and> name \<noteq> [] \<and>
                          list_all (\<lambda>x. x = CHR ''0'') name
                       then then_pieces [Whole_match] (parse_template (tl rest))
                       else Inl Template_error)
             else if e = CHR ''0'' then
               (let ds = takeWhile is_octal (take 2 s')
                in then_pieces [Lit (char_of (octal_value ds))]
                     (parse_template (drop (length ds) s')))
             else if is_digit e then
               (case s' of
                  d2 # d3 # s'' \<Rightarrow>
                    if is_octal e \<and> is_octal d2 \<and> is_octal d3 \<and>
                       octal_value [e, d2, d3] \<le> 255
                    then then_pieces [Lit (char_of (octal_value [e, d2, d3]))]
                           (parse_template s'')
                    else Inl Template_error
                | _ \<Rightarrow> Inl Template_error)
             else
               (case escapes e of
                  Some x \<Rightarrow> then_pieces [Lit x] (parse_template s')
                | None \<Rightarrow>
                    if is_ascii_letter e then Inl Template_error
                    else then_pieces [Lit backslash, Lit e] (parse_template s'))))"
  by pat_completeness auto
termination
proof (relation "measure length", goal_cases)
  case (3 c s e s' lt s'' name rest)
  have "length (dropWhile (\<lambda>x. x \<noteq> CHR ''>'') s'') \<le> length s''"
    by (rule length_dropWhile_le)
  with 3 show ?case by (cases rest) auto
qed auto

text \<open>The text that replaces the match \<open>m\<close>.\<close>

definition expand_template :: "piece list \<Rightarrow> string \<Rightarrow> string" where
  "expand_template t m =
     concat (map (\<lambda>p. case p of Lit c \<Rightarrow> [c] | Whole_match \<Rightarrow> m) t)"

text \<open>
  The pattern \<open>requires-python = ".*"\<close>.  Its literal part ends with the opening quote.
\<close>

definition requires_python_key :: string where
  "requires_python_key = ''requires-python = '' @ [dquote]"

text \<open>
  The length of the match that starts at the head of \<open>s\<close>, if there is one.  After the
  literal part, the greedy \<open>.*\<close> runs to the end of the line (the dot takes every
  character but the line feed) and gives characters back until a quote follows: the
  match ends with the last quote of the line.
\<close>

definition match_len :: "string \<Rightarrow> nat option" where
  "match_len s =
     (if prefix requires_python_key s then
        (let line = takeWhile (\<lambda>c. c \<noteq> newline) (drop (length requires_python_key) s);
             body = rev (dropWhile (\<lambda>c. c \<noteq> dquote) (rev line))
         in if body = [] then None
            else Some (length requires_python_key + length body))
      else None)"

text \<open>
  The scan of \<open>re.sub\<close> with the default \<open>count=0\<close>: at each position the pattern is
  tried; a match is replaced and the scan goes on behind it, otherwise the character is
  copied.  A match is at least twenty characters long, so the rule of \<open>re.sub\<close> for
  empty matches never applies.
\<close>

function sub_all :: "piece list \<Rightarrow> string \<Rightarrow> string" where
  "sub_all t [] = []"
| "sub_all t (c # s) =
     (case match_len (c # s) of
        Some n \<Rightarrow> expand_template t (take n (c # s)) @ sub_all t (drop n (c # s))
      | None \<Rightarrow> c # sub_all t s)"
  by pat_completeness auto
termination
  by (relation "measure (\<lambda>(t, s). length s)")
     (auto simp: match_len_def Let_def requires_python_key_def split: if_splits)

text \<open>\<open>re.sub(pattern, repl, content)\<close>\<close>

definition re_sub :: "string \<Rightarrow> string \<Rightarrow> error + string" where
  "re_sub repl content =
     (case parse_template repl of
        Inl e \<Rightarrow> Inl e
      | Inr t \<Rightarrow> Inr (sub_all t content))"

text \<open>\<open>pattern.search(s) is not None\<close>: the pattern matches somewhere in \<open>s\<close>.\<close>

fun has_match :: "string \<Rightarrow> bool" where
  "has_match [] = False"
| "has_match (c # s) = (match_len (c # s) \<noteq> None \<or> has_match s)"

text \<open>
  A substitution that replaces the first occurrence only and copies the rest, which is
  what \<open>re.sub\<close> does when it is called with \<open>count=1\<close>.  The script does not call it; it
  is here to be compared with \<open>sub_all\<close>.
\<close>

fun sub_first :: "piece list \<Rightarrow> string \<Rightarrow> string" where
  "sub_first t [] = []"
| "sub_first t (c # s) =
     (case match_len (c # s) of
        Some n \<Rightarrow> expand_template t (take n (c # s)) @ drop n (c # s)
      | None \<Rightarrow> c # sub_first t s)"

subsection \<open>The placeholder and the string literal of line 48\<close>

text \<open>
  The template engine puts the text of the placeholder in place of
  \<open>{{cookiecutter.min_python}}\<close>, between the double quotes of line 48 (and in the comment
  of line 61), and Python then reads what stands between the quotes as a string literal.
  \<open>string_literal_value\<close> is the value of that literal.  It is \<open>None\<close> when the rendered
  file is not the script with a value of this model: the text leaves the literal (a
  double quote without a backslash before it, a backslash at the very end), holds a
  malformed \<open>\x\<close>, \<open>\u\<close> or \<open>\U\<close> escape, holds a NUL or a line break (which would also
  land in the comment), or denotes a character by name (\<open>\N{...}\<close>) or beyond code point
  255.  An escape that Python does not know keeps its backslash.
\<close>

definition squote :: char where
  "squote = CHR 0x27"

definition is_hex :: "char \<Rightarrow> bool" where
  "is_hex c = (c \<in> set ''0123456789abcdefABCDEF'')"

definition hex_digit_value :: "char \<Rightarrow> nat" where
  "hex_digit_value c =
     (if is_digit c then of_char c - 48
      else if c \<in> set ''abcdef'' then of_char c - 87
      else of_char c - 55)"

definition hex_value :: "string \<Rightarrow> nat" where
  "hex_value ds = foldl (\<lambda>n d. 16 * n + hex_digit_value d) 0 ds"

text \<open>The escapes of one character: \<open>\a \b \f \n \r \t \v\<close>, the backslash and the two quotes.\<close>

definition literal_escapes :: "char \<Rightarrow> char option" where
  "literal_escapes c =
     (if c = squote then Some squote
      else if c = dquote then Some dquote
      else escapes c)"

text \<open>The number of hexadecimal digits that \<open>\x\<close>, \<open>\u\<close> and \<open>\U\<close> take.\<close>

definition hex_width :: "char \<Rightarrow> nat" where
  "hex_width e = (if e = CHR ''x'' then 2 else if e = CHR ''u'' then 4 else 8)"

function string_literal_value :: "string \<Rightarrow> string option" where
  "string_literal_value [] = Some []"
| "string_literal_value (c # s) =
     (if c = dquote \<or> c = newline \<or> c = carriage_return \<or> c = nul then None
      else if c \<noteq> backslash then map_option ((#) c) (string_literal_value s)
      else
        (case s of
           [] \<Rightarrow> None
         | e # s' \<Rightarrow>
             if e = newline \<or> e = carriage_return \<or> e = nul \<or> e = CHR ''N'' then None
             else if is_octal e then
               (let ds = takeWhile is_octal (take 3 s)
                in if octal_value ds \<le> 255
                   then map_option ((#) (char_of (octal_value ds)))
                          (string_literal_value (drop (length ds) s))
                   else None)
             else if e = CHR ''x'' \<or> e = CHR ''u'' \<or> e = CHR ''U'' then
               (let ds = take (hex_width e) s'
                in if length ds = hex_width e \<and> list_all is_hex ds \<and> hex_value ds \<le> 255
                   then map_option ((#) (char_of (hex_value ds)))
                          (string_literal_value (drop (hex_width e) s'))
                   else None)
             else
               (case literal_escapes e of
                  Some x \<Rightarrow> map_option ((#) x) (string_literal_value s')
                | None \<Rightarrow> map_option (\<lambda>v. backslash # e # v) (string_literal_value s'))))"
  by pat_completeness auto
termination
  by (relation "measure length") auto

subsection \<open>The outside world\<close>

text \<open>
  What the script meets outside itself is given by an environment, which it only reads,
  and a world, which it changes.

  \<^item> \<open>subprocess.run\<close> with an argument list and \<open>text=True\<close> has three outcomes: the
    program cannot be started (the executable is not on the path: \<open>FileNotFoundError\<close>);
    it completes with an exit status and a standard output that decodes to a text, line
    ends translated; it completes with an output that cannot be decoded
    (\<open>UnicodeDecodeError\<close>).
  \<^item> \<open>pyproject.toml\<close> either cannot be opened and read as text, with the exception that
    says why, or holds a text.  The text is what is on the disk, before any translation
    of line ends.
  \<^item> Writing a text to \<open>pyproject.toml\<close> succeeds, or is refused when the file is opened
    (the file keeps its text), or fails after the file was opened and cut to length 0,
    leaving what the last constructor says.
  \<^item> The platform decides the line separator that a line feed is written as.
  \<^item> A command line run with \<open>shell=True\<close> is handed to the shell, which is always there
    and reports the exit status of the command it ran, here \<open>pdm use\<close>; its output is not
    captured.  The command may change \<open>pyproject.toml\<close>.
  \<^item> Messages go to the standard output, which is taken to accept them.

  The world also records, in order, what the script called.  A command that never
  returns is not modelled.
\<close>

datatype process = Not_started | Completed int string | Undecodable

datatype text_file = Unreadable error | Text string

datatype write_outcome = Written | Refused error | Failed error string

datatype platform = Posix | Windows

record environment =
  pyenv_versions :: process
  platform :: platform
  write_result :: "string \<Rightarrow> write_outcome"
  shell :: "string \<Rightarrow> text_file \<Rightarrow> int \<times> text_file"

datatype event =
    Called_pyenv_versions
  | Read_pyproject
  | Wrote_pyproject string
  | Ran_shell string
  | Printed string

record world =
  pyproject :: text_file
  events :: "event list"

definition record_event :: "event \<Rightarrow> world \<Rightarrow> world" where
  "record_event e w = w\<lparr>events := events w @ [e]\<rparr>"

text \<open>
  Reading in text mode with the default \<open>newline=None\<close>: a carriage return with a line
  feed behind it, and a carriage return alone, are read as one line feed.
\<close>

fun universal_newlines :: "string \<Rightarrow> string" where
  "universal_newlines [] = []"
| "universal_newlines [c] = (if c = carriage_return then [newline] else [c])"
| "universal_newlines (c # d # s) =
     (if c = carriage_return \<and> d = newline then newline # universal_newlines s
      else if c = carriage_return then newline # universal_newlines (d # s)
      else c # universal_newlines (d # s))"

text \<open>\<open>os.linesep\<close>, and writing in text mode: every line feed is written as \<open>os.linesep\<close>.\<close>

definition linesep :: "platform \<Rightarrow> string" where
  "linesep pf = (case pf of Posix \<Rightarrow> [newline] | Windows \<Rightarrow> [carriage_return, newline])"

definition to_disk :: "platform \<Rightarrow> string \<Rightarrow> string" where
  "to_disk pf text = concat (map (\<lambda>c. if c = newline then linesep pf else [c]) text)"

text \<open>Lines joined by a separator of any length, as they stand in a file.\<close>

fun join_lines :: "string \<Rightarrow> string list \<Rightarrow> string" where
  "join_lines sep [] = []"
| "join_lines sep [x] = x"
| "join_lines sep (x # y # ys) = x @ sep @ join_lines sep (y # ys)"

text \<open>
  A file has the line ends of the platform when writing what is read from it gives the
  file again: on POSIX it holds no carriage return, on Windows every line feed follows
  a carriage return and every carriage return is followed by a line feed.
\<close>

definition native_line_ends :: "platform \<Rightarrow> string \<Rightarrow> bool" where
  "native_line_ends pf on_disk = (to_disk pf (universal_newlines on_disk) = on_disk)"

subsection \<open>Version discovery\<close>

text \<open>
  \<open>get_installed_python_versions\<close>: \<open>subprocess.run(["pyenv", "versions", "--bare"], ...)\<close>
  without \<open>check\<close>, then the test of the return code.
\<close>

definition get_installed_python_versions ::
  "environment \<Rightarrow> world \<Rightarrow> (error + string list) \<times> world" where
  "get_installed_python_versions env w =
     (let w' = record_event Called_pyenv_versions w in
      case pyenv_versions env of
        Not_started \<Rightarrow> (Inl (File_not_found_error ''pyenv''), w')
      | Undecodable \<Rightarrow> (Inl Unicode_decode_error, w')
      | Completed returncode stdout \<Rightarrow>
          if returncode \<noteq> 0 then (Inr [], w')
          else (Inr (splitlines (strip stdout)), w'))"

subsection \<open>Configuration patch\<close>

text \<open>The replacement string \<open>f'requires-python = "{python_version}"'\<close>.\<close>

definition assignment :: "string \<Rightarrow> string" where
  "assignment python_version = requires_python_key @ python_version @ [dquote]"

text \<open>
  \<open>update_pyproject_toml\<close>: the file is opened and read whole in text mode (lines 35 and
  36), the substitution is computed (lines 38 to 40), and only then the file is opened
  for writing and written in text mode (lines 42 and 43).
\<close>

definition update_pyproject_toml ::
  "string \<Rightarrow> environment \<Rightarrow> world \<Rightarrow> (error + unit) \<times> world" where
  "update_pyproject_toml python_version env w =
     (let w1 = record_event Read_pyproject w in
      case pyproject w of
        Unreadable e \<Rightarrow> (Inl e, w1)
      | Text on_disk \<Rightarrow>
          (let content = universal_newlines on_disk in
           case re_sub (assignment python_version) content of
             Inl e \<Rightarrow> (Inl e, w1)
           | Inr updated_content \<Rightarrow>
               (let w2 = record_event (Wrote_pyproject updated_content) w1 in
                case write_result env updated_content of
                  Written \<Rightarrow>
                    (Inr (), w2\<lparr>pyproject := Text (to_disk (platform env) updated_content)\<rparr>)
                | Refused e \<Rightarrow> (Inl e, w2)
                | Failed e left \<Rightarrow> (Inl e, w2\<lparr>pyproject := Text left\<rparr>))))"

subsection \<open>The script\<close>

text \<open>
  The first block of \<open>main\<close> (lines 48 to 59): the value of \<open>min_python\<close> when the block is
  left.  The first argument is the value that \<open>min_python\<close> has after line 48, that is the
  value of the string literal there.  \<open>if latest_version:\<close> is false for \<open>None\<close> and for
  the empty string.
\<close>

definition determine_min_python ::
  "string \<Rightarrow> environment \<Rightarrow> world \<Rightarrow> (error + string) \<times> world" where
  "determine_min_python min_python_48 env w =
     (if strip min_python_48 = [] then
        (case get_installed_python_versions env w of
           (Inl e, w1) \<Rightarrow> (Inl e, w1)
         | (Inr installed_versions, w1) \<Rightarrow>
             (case get_latest_installed_python_version installed_versions of
                Inl e \<Rightarrow> (Inl e, w1)
              | Inr latest_version \<Rightarrow>
                  if latest_version \<noteq> None \<and> latest_version \<noteq> Some [] then
                    (let min_python = ''>='' @ the latest_version;
                         w2 = record_event
                                (Printed (''Using latest installed Python version: '' @ min_python)) w1
                     in case update_pyproject_toml min_python env w2 of
                          (Inl e, w3) \<Rightarrow> (Inl e, w3)
                        | (Inr u, w3) \<Rightarrow> (Inr min_python, w3))
                  else
                    (let w2 = record_event
                                (Printed ''Warning: Could not determine latest Python version. Using default.'') w1;
                         min_python = ''>=3.8''
                     in case update_pyproject_toml min_python env w2 of
                          (Inl e, w3) \<Rightarrow> (Inl e, w3)
                        | (Inr u, w3) \<Rightarrow> (Inr min_python, w3))))
      else (Inr min_python_48, w))"

text \<open>The command line of the toolchain activation (line 63).\<close>

definition pdm_use_command :: "string \<Rightarrow> string" where
  "pdm_use_command min_python = ''pdm use $(pyenv prefix '' @ min_python @ '')/bin/python''"

text \<open>
  \<open>main\<close>, given the value of the literal of line 48: the first block, then
  \<open>subprocess.run(..., shell=True, check=True)\<close>, then the two messages.
  \<open>subprocess.run\<close> raises \<open>ValueError\<close>, and starts nothing, when the command line holds
  a NUL character; it raises \<open>CalledProcessError\<close> on an exit status other than 0.
\<close>

definition main :: "string \<Rightarrow> environment \<Rightarrow> world \<Rightarrow> (error + unit) \<times> world" where
  "main min_python_48 env w =
     (case determine_min_python min_python_48 env w of
        (Inl e, w1) \<Rightarrow> (Inl e, w1)
      | (Inr min_python, w1) \<Rightarrow>
          (let command = pdm_use_command min_python in
           if nul \<in> set command then (Inl Value_error, w1)
           else
             (let (returncode, left) = shell env command (pyproject w1);
                  w2 = record_event (Ran_shell command) (w1\<lparr>pyproject := left\<rparr>)
              in if returncode \<noteq> 0 then
                   (Inl (Called_process_error returncode command), w2)
                 else
                   (Inr (),
                    record_event (Printed ''Project setup complete!'')
                      (record_event
                         (Printed (''Using Python version specified in pyproject.toml: '' @ min_python))
                         w2)))))"

text \<open>
  The exit status of the process: an exception that leaves \<open>main\<close> is caught nowhere, the
  interpreter prints the traceback and exits with status 1.
\<close>

definition exit_status :: "(error + unit) \<times> world \<Rightarrow> int" where
  "exit_status r = (case fst r of Inl e \<Rightarrow> 1 | Inr u \<Rightarrow> 0)"

text \<open>
  The hook as the template engine renders it for a placeholder text: \<open>main\<close> with the
  value of the literal, when there is one.
\<close>

definition hook ::
  "string \<Rightarrow> environment \<Rightarrow> world \<Rightarrow> ((error + unit) \<times> world) option" where
  "hook placeholder env w =
     map_option (\<lambda>min_python_48. main min_python_48 env w) (string_literal_value placeholder)"

subsection \<open>Sample data\<close>

text \<open>
  A shell in which every command succeeds and one in which every command fails, both
  leaving \<open>pyproject.toml\<close> alone; a disk on which every write succeeds; and, for an
  outcome of \<open>pyenv versions\<close>, the environment made of these on a POSIX platform.
\<close>

definition every_command_succeeds :: "string \<Rightarrow> text_file \<Rightarrow> int \<times> text_file" where
  "every_command_succeeds command f = (0, f)"

definition every_command_fails :: "string \<Rightarrow> text_file \<Rightarrow> int \<times> text_file" where
  "every_command_fails command f = (1, f)"

definition every_write_succeeds :: "string \<Rightarrow> write_outcome" where
  "every_write_succeeds text = Written"

definition posix_environment :: "process \<Rightarrow> environment" where
  "posix_environment p =
     \<lparr>pyenv_versions = p, platform = Posix,
      write_result = every_write_succeeds, shell = every_command_succeeds\<rparr>"

text \<open>
  A disk that refuses every write, and a disk with room for 24 characters, on which the
  write of a longer text breaks off after 21 characters; and the environment made of an
  outcome of \<open>pyenv versions\<close> and a disk, on a POSIX platform.
\<close>

definition refusing_disk :: "string \<Rightarrow> write_outcome" where
  "refusing_disk text = Refused (Permission_error ''pyproject.toml'')"

definition small_disk :: "string \<Rightarrow> write_outcome" where
  "small_disk text = (if length text \<le> 24 then Written else Failed Os_error (take 21 text))"

definition environment_with_disk :: "process \<Rightarrow> (string \<Rightarrow> write_outcome) \<Rightarrow> environment" where
  "environment_with_disk p disk =
     \<lparr>pyenv_versions = p, platform = Posix,
      write_result = disk, shell = every_command_succeeds\<rparr>"

text \<open>A text between double quotes, and a small \<open>pyproject.toml\<close> with a given constraint.\<close>

definition quoted :: "string \<Rightarrow> string" where
  "quoted s = dquote # s @ [dquote]"

definition sample_pyproject :: "string \<Rightarrow> string" where
  "sample_pyproject constraint =
     ''[project]\<newline>name = '' @ quoted ''demo'' @
     ''\<newline>requires-python = '' @ quoted constraint @
     ''\<newline>dependencies = []\<newline>''"

section \<open>Properties\<close>

subsection \<open>Auxiliary facts about the string methods\<close>

lemma split_on_no_sep:
  "sep \<notin> set a \<Longrightarrow> split_on sep (a @ sep # r) = a # split_on sep r"
  by (induction a) auto

lemma split_on_plain: "sep \<notin> set a \<Longrightarrow> split_on sep a = [a]"
  by (induction a) auto

lemma dot_not_digit: "list_all is_digit a \<Longrightarrow> CHR ''.'' \<notin> set a"
  by (induction a) (auto simp: is_digit_def)

text \<open>A string that matches the version pattern starts with \<open>3.\<close>, digits and a dot.\<close>

lemma version_match_shape:
  assumes "version_match v"
  obtains a r where "a \<noteq> []" "list_all is_digit a" "v = ''3.'' @ a @ CHR ''.'' # r"
proof -
  from assms obtain r0 r1 where v: "v = CHR ''3'' # CHR ''.'' # r0"
    and a: "takeWhile is_digit r0 \<noteq> []"
    and d: "dropWhile is_digit r0 = CHR ''.'' # r1"
    by (auto simp: version_match_def split: list.splits)
  have "r0 = takeWhile is_digit r0 @ CHR ''.'' # r1"
    using d by (metis takeWhile_dropWhile_id)
  moreover have "list_all is_digit (takeWhile is_digit r0)"
    by (simp add: list_all_iff) (meson set_takeWhileD)
  ultimately show thesis using a v that [of "takeWhile is_digit r0" r1] by simp
qed

lemma major_minor_shape:
  assumes "list_all is_digit a"
  shows "major_minor (''3.'' @ a @ CHR ''.'' # r) = ''3.'' @ a"
proof -
  have "split_on (CHR ''.'') (''3.'' @ a @ CHR ''.'' # r) = ''3'' # a # split_on (CHR ''.'') r"
    using split_on_no_sep [OF dot_not_digit [OF assms]] by simp
  then show ?thesis by (simp add: major_minor_def)
qed

text \<open>\<open>s.strip()\<close> is empty exactly when \<open>s\<close> holds white space only.\<close>

lemma strip_blank: "strip s = [] \<longleftrightarrow> (\<forall>c\<in>set s. is_space c)"
proof
  assume "strip s = []"
  then have "\<forall>c\<in>set (dropWhile is_space s). is_space c"
    by (simp add: strip_def)
  then have "dropWhile is_space s = []"
    by (metis hd_dropWhile list.set_sel(1))
  then show "\<forall>c\<in>set s. is_space c" by simp
next
  assume "\<forall>c\<in>set s. is_space c"
  then have d: "dropWhile is_space s = []" by simp
  show "strip s = []" by (simp only: strip_def d rev.simps dropWhile.simps)
qed

lemma filter_last_match:
  "P v \<Longrightarrow> \<forall>u\<in>set post. \<not> P u \<Longrightarrow> filter P (pre @ v # post) = filter P pre @ [v]"
  by (simp add: filter_empty_conv)

subsection \<open>Version selection\<close>

text \<open>
  A list that holds a matching entry has a last one: it splits into what stands before
  that entry, the entry, and entries behind it of which none matches.
\<close>

lemma last_match_exists:
  "\<exists>v\<in>set vs. version_match v \<Longrightarrow>
   \<exists>pre v post. vs = pre @ v # post \<and> version_match v \<and> (\<forall>u\<in>set post. \<not> version_match u)"
  by (rule split_list_last_prop)

text \<open>
  Claim C1.  When the list of candidates holds a string that matches the version pattern,
  \<open>get_latest_installed_python_version\<close> returns the first two dot-separated components
  of the last matching entry in the order of the list: for a matching \<open>v\<close> with no
  matching entry behind it, whatever stands before it, the result is \<open>major_minor v\<close>.
  The entry chosen is the last one, not the greatest one.
\<close>

theorem latest_is_last_match:
  assumes "version_match v" and "\<forall>u\<in>set post. \<not> version_match u"
  shows "get_latest_installed_python_version (pre @ v # post) = Inr (Some (major_minor v))"
  using filter_last_match [of version_match v post pre, OF assms]
  by (simp add: get_latest_installed_python_version_def last_item_def)

text \<open>
  With \<open>3.11.0\<close> listed before \<open>3.9.1\<close> the result is \<open>3.9\<close>, the later entry, although
  \<open>3.11\<close> is the greater version.
\<close>

theorem latest_is_last_match_witness:
  "version_match ''3.9.1'' \<and> \<not> version_match ''2.7.18'' \<and>
   get_latest_installed_python_version [''3.11.0'', ''3.9.1'', ''2.7.18''] = Inr (Some ''3.9'') \<and>
   major_minor ''3.9.1'' = ''3.9''"
proof -
  have m: "version_match ''3.9.1''" by code_simp
  have n: "\<not> version_match ''2.7.18''" by code_simp
  then have n': "\<forall>u\<in>set [''2.7.18'']. \<not> version_match u" by simp
  have s: "major_minor ''3.9.1'' = ''3.9''" by code_simp
  from latest_is_last_match [OF m n', of "[''3.11.0'']"] m n s show ?thesis by simp
qed

text \<open>
  Claim C9.  For every list of strings \<open>get_latest_installed_python_version\<close> returns and
  raises nothing: the result is \<open>None\<close>, or it is \<open>3.\<close> followed by one or more digits,
  and then it is the first two dot-separated components of an element of the list.
\<close>

theorem latest_total:
  "get_latest_installed_python_version vs = Inr None \<or>
   (\<exists>v a. v \<in> set vs \<and> a \<noteq> [] \<and> list_all is_digit a \<and> major_minor v = ''3.'' @ a \<and>
          get_latest_installed_python_version vs = Inr (Some (''3.'' @ a)))"
proof (cases "filter version_match vs = []")
  case True
  then show ?thesis by (simp add: get_latest_installed_python_version_def)
next
  case False
  let ?v = "last (filter version_match vs)"
  from False have "?v \<in> set (filter version_match vs)" by (rule last_in_set)
  then have mem: "?v \<in> set vs" and m: "version_match ?v" by auto
  from m obtain a r where a: "a \<noteq> []" "list_all is_digit a" "?v = ''3.'' @ a @ CHR ''.'' # r"
    by (rule version_match_shape)
  have "major_minor ?v = ''3.'' @ a"
    using major_minor_shape [OF a(2), of r] a(3) by simp
  with False mem a show ?thesis
    by (auto simp: get_latest_installed_python_version_def last_item_def)
qed

subsection \<open>Replacement strings without a backslash\<close>

text \<open>A template without a backslash is the text itself, and parsing it never fails.\<close>

lemma parse_template_plain:
  "backslash \<notin> set r \<Longrightarrow> parse_template r = Inr (map Lit r)"
  by (induction r) (auto simp: then_pieces_def)

lemma expand_template_plain: "expand_template (map Lit r) m = r"
  by (induction r) (simp_all add: expand_template_def)

lemma assignment_plain: "backslash \<notin> set v \<Longrightarrow> backslash \<notin> set (assignment v)"
  by (simp add: assignment_def requires_python_key_def backslash_def dquote_def)

lemma assignment_template:
  "backslash \<notin> set v \<Longrightarrow> parse_template (assignment v) = Inr (map Lit (assignment v))"
  by (rule parse_template_plain) (rule assignment_plain)

subsection \<open>The substitution, line by line\<close>

text \<open>
  A match never crosses a line feed, so the substitution works on each line by itself.
  The facts below are about the text \<open>split_on newline\<close> cuts into lines.
\<close>

lemma split_on_lines_free: "list_all (\<lambda>l. sep \<notin> set l) (split_on sep s)"
  by (induction s) (auto split: list.splits)

lemma key_length: "length requires_python_key = 19"
  by (simp add: requires_python_key_def)

lemma key_no_newline: "newline \<notin> set requires_python_key"
  by (simp add: requires_python_key_def newline_def dquote_def)

lemma prefix_key_line:
  assumes "newline \<notin> set l"
  shows "prefix requires_python_key (l @ newline # rest) \<longleftrightarrow> prefix requires_python_key l"
proof
  assume "prefix requires_python_key (l @ newline # rest)"
  then consider "prefix requires_python_key l"
    | us where "requires_python_key = l @ us" "prefix us (newline # rest)"
    by (auto simp: prefix_append)
  then show "prefix requires_python_key l"
  proof cases
    case 1 then show ?thesis .
  next
    case 2
    show ?thesis
    proof (cases us)
      case Nil
      with 2 show ?thesis by simp
    next
      case (Cons x xs)
      with 2(2) have "newline \<in> set (l @ us)" by simp
      moreover from 2(1) have "set requires_python_key = set (l @ us)" by (simp only:)
      ultimately show ?thesis using key_no_newline by simp
    qed
  qed
next
  assume "prefix requires_python_key l"
  then show "prefix requires_python_key (l @ newline # rest)" by (rule prefix_prefix)
qed

lemma match_len_line:
  assumes "newline \<notin> set l"
  shows "match_len (l @ newline # rest) = match_len l"
proof (cases "prefix requires_python_key l")
  case False
  with assms show ?thesis by (simp add: match_len_def prefix_key_line)
next
  case True
  then obtain r where l: "l = requires_python_key @ r" by (auto simp: prefix_def)
  with assms have r: "newline \<notin> set r" by simp
  have 1: "takeWhile (\<lambda>c. c \<noteq> newline) (r @ newline # rest) = r"
    using r by (induction r) auto
  have 2: "takeWhile (\<lambda>c. c \<noteq> newline) r = r"
    using r by (induction r) auto
  show ?thesis using True by (simp add: match_len_def l 1 2)
qed

lemma match_len_le: "match_len s = Some n \<Longrightarrow> n \<le> length s"
proof -
  assume m: "match_len s = Some n"
  then obtain r where s: "s = requires_python_key @ r"
    by (auto simp: match_len_def prefix_def split: if_splits)
  let ?line = "takeWhile (\<lambda>c. c \<noteq> newline) r"
  have "length (dropWhile (\<lambda>c. c \<noteq> dquote) (rev ?line)) \<le> length (rev ?line)"
    by (rule length_dropWhile_le)
  also have "\<dots> \<le> length r" by (simp add: length_takeWhile_le)
  finally show ?thesis using m by (auto simp: match_len_def s Let_def split: if_splits)
qed

lemma sub_all_match:
  "match_len s = Some n \<Longrightarrow> sub_all t s = expand_template t (take n s) @ sub_all t (drop n s)"
  by (cases s) (auto simp: match_len_def requires_python_key_def)

text \<open>The scan of a text is the scan of its first line, the line feed, and the scan of the rest.\<close>

lemma sub_all_line:
  "newline \<notin> set l \<Longrightarrow> sub_all t (l @ newline # rest) = sub_all t l @ newline # sub_all t rest"
proof (induction t l rule: sub_all.induct)
  case (1 t)
  have "match_len (newline # rest) = None"
    by (simp add: match_len_def requires_python_key_def newline_def)
  then show ?case by simp
next
  case (2 t c s)
  define l where "l = c # s"
  have ml: "match_len (l @ newline # rest) = match_len l"
    using "2.prems" unfolding l_def by (rule match_len_line)
  show ?case
  proof (cases "match_len l")
    case None
    with 2 ml show ?thesis by (simp add: l_def)
  next
    case (Some n)
    then have n: "n \<le> length l" by (rule match_len_le)
    have tk: "take n (l @ newline # rest) = take n l"
      and dr: "drop n (l @ newline # rest) = drop n l @ newline # rest"
      using n by simp_all
    have "newline \<notin> set (drop n l)"
      using "2.prems" unfolding l_def by (meson in_set_dropD)
    with "2.IH"(2) [OF Some [unfolded l_def]] have ih:
      "sub_all t (drop n l @ newline # rest) = sub_all t (drop n l) @ newline # sub_all t rest"
      by (simp add: l_def)
    have "sub_all t (l @ newline # rest) =
        expand_template t (take n (l @ newline # rest)) @ sub_all t (drop n (l @ newline # rest))"
      using ml Some by (intro sub_all_match) simp
    also have "\<dots> = expand_template t (take n l) @ sub_all t (drop n l) @ newline # sub_all t rest"
      by (simp only: tk dr ih)
    also have "\<dots> = sub_all t l @ newline # sub_all t rest"
      using sub_all_match [OF Some, of t] by simp
    finally show ?thesis by (simp only: l_def)
  qed
qed

lemma sub_all_no_match: "\<not> has_match l \<Longrightarrow> sub_all t l = l"
  by (induction l) auto

lemma assignment_no_newline: "newline \<notin> set v \<Longrightarrow> newline \<notin> set (assignment v)"
  by (simp add: assignment_def requires_python_key_def newline_def dquote_def)

lemma sub_all_keeps_line:
  "newline \<notin> set v \<Longrightarrow> newline \<notin> set l \<Longrightarrow> newline \<notin> set (sub_all (map Lit (assignment v)) l)"
proof (induction "map Lit (assignment v)" l rule: sub_all.induct)
  case 1
  then show ?case by simp
next
  case (2 c s)
  show ?case
  proof (cases "match_len (c # s)")
    case None
    with 2 show ?thesis by simp
  next
    case (Some n)
    have "newline \<notin> set (drop n (c # s))"
      using "2.prems"(2) by (meson in_set_dropD)
    with "2.hyps"(2) [OF Some "2.prems"(1)] have "newline \<notin> set (sub_all (map Lit (assignment v)) (drop n (c # s)))"
      by simp
    with Some assignment_no_newline [OF "2.prems"(1)] show ?thesis
      by (simp add: expand_template_plain)
  qed
qed

subsection \<open>What a second substitution finds\<close>

text \<open>
  Behind a match there is no quote left on the line, a match needs two quotes, and the
  first nineteen characters of a scanned text are those of the text: these three facts
  show that a second scan finds, on every line, the replacement of the first scan and
  nothing else.
\<close>

lemma rev_dropWhile_split:
  "xs = rev (dropWhile P (rev xs)) @ rev (takeWhile P (rev xs))"
  by (metis rev_append rev_rev_ident takeWhile_dropWhile_id)

lemma takeWhile_all: "x \<notin> set r \<Longrightarrow> takeWhile (\<lambda>c. c \<noteq> x) r = r"
  by (induction r) auto

lemma match_rest_no_quote:
  assumes "match_len l = Some n" and "newline \<notin> set l"
  shows "dquote \<notin> set (drop n l)"
proof -
  from assms(1) obtain r where l: "l = requires_python_key @ r"
    by (auto simp: match_len_def prefix_def split: if_splits)
  with assms(2) have line: "takeWhile (\<lambda>c. c \<noteq> newline) r = r"
    by (simp add: takeWhile_all)
  let ?body = "rev (dropWhile (\<lambda>c. c \<noteq> dquote) (rev r))"
  let ?tail = "rev (takeWhile (\<lambda>c. c \<noteq> dquote) (rev r))"
  from assms(1) have n: "n = length requires_python_key + length ?body"
    by (auto simp: match_len_def l line Let_def split: if_splits)
  have r: "r = ?body @ ?tail" by (rule rev_dropWhile_split)
  have "drop n l = drop (length ?body) r" by (simp add: n l)
  also have "\<dots> = drop (length ?body) (?body @ ?tail)" using r by simp
  also have "\<dots> = ?tail" by simp
  finally have "drop n l = ?tail" .
  moreover have "dquote \<notin> set ?tail" by (auto dest: set_takeWhileD)
  ultimately show ?thesis by simp
qed

lemma key_one_quote: "count_list requires_python_key dquote = 1"
  by (simp add: requires_python_key_def dquote_def)

lemma match_two_quotes:
  assumes "match_len s = Some n"
  shows "2 \<le> count_list s dquote"
proof -
  from assms obtain r where s: "s = requires_python_key @ r"
    by (auto simp: match_len_def prefix_def split: if_splits)
  let ?line = "takeWhile (\<lambda>c. c \<noteq> newline) r"
  from assms have "dropWhile (\<lambda>c. c \<noteq> dquote) (rev ?line) \<noteq> []"
    by (auto simp: match_len_def s Let_def split: if_splits)
  then have "dquote \<in> set ?line" by (auto simp: dropWhile_eq_Nil_conv)
  then have "dquote \<in> set r" by (auto dest: set_takeWhileD)
  then have "1 \<le> count_list r dquote"
    by (metis count_list_0_iff not_less_eq_eq less_one linorder_not_le) 
  then show ?thesis by (simp add: s key_one_quote)
qed

lemma has_match_two_quotes: "has_match s \<Longrightarrow> 2 \<le> count_list s dquote"
proof (induction s)
  case Nil
  then show ?case by simp
next
  case (Cons c s)
  show ?case
  proof (cases "match_len (c # s)")
    case (Some n)
    then show ?thesis by (rule match_two_quotes)
  next
    case None
    with Cons have "2 \<le> count_list s dquote" by simp
    then show ?thesis by simp
  qed
qed

lemma sub_all_few_quotes: "count_list s dquote < 2 \<Longrightarrow> sub_all t s = s"
  using has_match_two_quotes [of s] by (intro sub_all_no_match) auto

lemma prefix_key_take: "prefix requires_python_key x \<longleftrightarrow> take 19 x = requires_python_key"
  by (metis key_length prefix_def append_eq_conv_conj append_take_drop_id)

lemma assignment_take: "take 19 (assignment v @ x) = requires_python_key"
  by (simp add: assignment_def key_length)

lemma sub_all_take_key:
  "take 19 (sub_all (map Lit (assignment v)) s) = take 19 s"
proof (induction "map Lit (assignment v)" s rule: sub_all.induct)
  case 1
  then show ?case by simp
next
  case (2 c s)
  show ?case
  proof (cases "match_len (c # s)")
    case None
    from "2.hyps"(1) [OF None] have "take 18 (take 19 (sub_all (map Lit (assignment v)) s)) = take 18 (take 19 s)"
      by simp
    then have "take 18 (sub_all (map Lit (assignment v)) s) = take 18 s" by simp
    with None show ?thesis by (simp add: take_Cons')
  next
    case (Some n)
    then have "prefix requires_python_key (c # s)"
      by (auto simp: match_len_def split: if_splits)
    then have "take 19 (c # s) = requires_python_key" by (simp only: prefix_key_take)
    moreover have "sub_all (map Lit (assignment v)) (c # s)
        = assignment v @ sub_all (map Lit (assignment v)) (drop n (c # s))"
      using Some by (simp add: expand_template_plain)
    ultimately show ?thesis by (simp only: assignment_take)
  qed
qed

lemma match_len_assignment:
  assumes "newline \<notin> set v" and "dquote \<notin> set suf"
  shows "match_len (assignment v @ suf) = Some (length (assignment v))"
proof -
  let ?line = "takeWhile (\<lambda>c. c \<noteq> newline) (v @ dquote # suf)"
  have line: "?line = v @ dquote # takeWhile (\<lambda>c. c \<noteq> newline) suf"
    using assms(1) by (induction v) (auto simp: newline_def dquote_def)
  have "dropWhile (\<lambda>c. c \<noteq> dquote) (rev (takeWhile (\<lambda>c. c \<noteq> newline) suf)) = []"
    using assms(2) by (auto simp: dropWhile_eq_Nil_conv dest: set_takeWhileD)
  then have "dropWhile (\<lambda>c. c \<noteq> dquote) (rev ?line) = dquote # rev v"
    by (simp add: line dropWhile_append)
  then have body: "rev (dropWhile (\<lambda>c. c \<noteq> dquote) (rev ?line)) = v @ [dquote]"
    by simp
  have pre: "prefix requires_python_key (assignment v @ suf)"
    by (simp add: assignment_def)
  have dr: "drop (length requires_python_key) (assignment v @ suf) = v @ dquote # suf"
    by (simp add: assignment_def)
  show ?thesis
    unfolding match_len_def Let_def dr body using pre by (simp add: assignment_def)
qed

lemma sub_all_behind_match:
  assumes "match_len l = Some n" and "newline \<notin> set l"
  shows "sub_all t l = expand_template t (take n l) @ drop n l"
proof -
  have "dquote \<notin> set (drop n l)" using assms by (rule match_rest_no_quote)
  then have "count_list (drop n l) dquote < 2" by simp
  then have "sub_all t (drop n l) = drop n l" by (rule sub_all_few_quotes)
  with sub_all_match [OF assms(1), of t] show ?thesis by simp
qed

lemma sub_all_after_match:
  assumes "match_len l = Some n" and "newline \<notin> set l"
  shows "sub_all (map Lit (assignment v)) l = assignment v @ drop n l"
  using sub_all_behind_match [OF assms, of "map Lit (assignment v)"]
  by (simp add: expand_template_plain)

lemma no_match_kept:
  assumes "match_len (c # s) = None" and "newline \<notin> set (c # s)"
  shows "match_len (c # sub_all (map Lit (assignment v)) s) = None"
proof (cases "prefix requires_python_key (c # s)")
  case False
  have "take 18 (take 19 (sub_all (map Lit (assignment v)) s)) = take 18 (take 19 s)"
    by (simp only: sub_all_take_key)
  then have "take 18 (sub_all (map Lit (assignment v)) s) = take 18 s" by simp
  then have "take 19 (c # sub_all (map Lit (assignment v)) s) = take 19 (c # s)"
    by (simp add: take_Cons')
  with False have "\<not> prefix requires_python_key (c # sub_all (map Lit (assignment v)) s)"
    by (simp add: prefix_key_take)
  then show ?thesis by (simp add: match_len_def)
next
  case True
  then obtain r where cs: "c # s = requires_python_key @ r" by (auto simp: prefix_def)
  with assms(2) have "newline \<notin> set r"
    by (metis Un_iff set_append)
  then have line: "takeWhile (\<lambda>c. c \<noteq> newline) r = r" by (rule takeWhile_all)
  from assms(1) True have "dropWhile (\<lambda>c. c \<noteq> dquote) (rev r) = []"
    by (auto simp: match_len_def cs line Let_def split: if_splits)
  then have nq: "dquote \<notin> set r" by (auto simp: dropWhile_eq_Nil_conv)
  have "count_list (c # s) dquote = 1"
    by (simp only: cs count_list_append key_one_quote) (use nq in simp)
  then have "count_list s dquote < 2" by (simp split: if_splits)
  then have "sub_all (map Lit (assignment v)) s = s" by (rule sub_all_few_quotes)
  with assms(1) show ?thesis by simp
qed

lemma sub_all_line_idem:
  assumes "newline \<notin> set v"
  shows "newline \<notin> set l \<Longrightarrow>
         sub_all (map Lit (assignment v)) (sub_all (map Lit (assignment v)) l)
           = sub_all (map Lit (assignment v)) l"
proof (induction l)
  case Nil
  then show ?case by simp
next
  case (Cons c s)
  let ?f = "sub_all (map Lit (assignment v))"
  show ?case
  proof (cases "match_len (c # s)")
    case None
    then have "match_len (c # ?f s) = None" using Cons.prems by (rule no_match_kept)
    with None Cons show ?thesis by simp
  next
    case (Some n)
    let ?suf = "drop n (c # s)"
    have f: "?f (c # s) = assignment v @ ?suf"
      using Some Cons.prems by (rule sub_all_after_match)
    have q: "dquote \<notin> set ?suf" using Some Cons.prems by (rule match_rest_no_quote)
    have nl: "newline \<notin> set (assignment v @ ?suf)"
      using assms Cons.prems assignment_no_newline [OF assms] by (auto dest: in_set_dropD)
    have m: "match_len (assignment v @ ?suf) = Some (length (assignment v))"
      using assms q by (rule match_len_assignment)
    have "?f (assignment v @ ?suf) = assignment v @ drop (length (assignment v)) (assignment v @ ?suf)"
      using m nl by (rule sub_all_after_match)
    then show ?thesis by (simp only: f) simp
  qed
qed

lemma sub_all_idem:
  assumes "newline \<notin> set v"
  shows "sub_all (map Lit (assignment v)) (sub_all (map Lit (assignment v)) c)
           = sub_all (map Lit (assignment v)) c"
proof (induction c rule: length_induct)
  case (1 c)
  let ?f = "sub_all (map Lit (assignment v))"
  show ?case
  proof (cases "newline \<in> set c")
    case False
    then show ?thesis using assms by (intro sub_all_line_idem)
  next
    case True
    then obtain l rest where c: "c = l @ newline # rest" and l: "newline \<notin> set l"
      by (auto dest: split_list_first)
    have nl: "newline \<notin> set (?f l)" using assms l by (intro sub_all_keeps_line)
    have "length rest < length c" by (simp add: c)
    with 1 have ih: "?f (?f rest) = ?f rest" by blast
    have "?f (?f c) = ?f (?f l @ newline # ?f rest)" by (simp only: c sub_all_line [OF l])
    also have "\<dots> = ?f (?f l) @ newline # ?f (?f rest)" using nl by (rule sub_all_line)
    also have "\<dots> = ?f l @ newline # ?f rest"
      by (simp only: ih sub_all_line_idem [OF assms l])
    also have "\<dots> = ?f c" by (simp only: c sub_all_line [OF l])
    finally show ?thesis .
  qed
qed

lemma sub_all_matching_line:
  assumes "newline \<notin> set l" and "has_match l"
  shows "\<exists>pre m suf. l = pre @ m @ suf \<and> match_len (m @ suf) = Some (length m) \<and>
           (\<forall>k<length pre. match_len (drop k l) = None) \<and>
           sub_all t l = pre @ expand_template t m @ suf"
  using assms
proof (induction l)
  case Nil
  then show ?case by simp
next
  case (Cons c s)
  show ?case
  proof (cases "match_len (c # s)")
    case (Some n)
    then have n: "n \<le> length (c # s)" by (rule match_len_le)
    have "sub_all t (c # s) = expand_template t (take n (c # s)) @ drop n (c # s)"
      using Some Cons.prems(1) by (rule sub_all_behind_match)
    moreover have "match_len (take n (c # s) @ drop n (c # s)) = Some (length (take n (c # s)))"
      using Some n by (simp only: append_take_drop_id length_take min.absorb2)
    ultimately have "c # s = [] @ take n (c # s) @ drop n (c # s) \<and>
        match_len (take n (c # s) @ drop n (c # s)) = Some (length (take n (c # s))) \<and>
        (\<forall>k<length ([]::string). match_len (drop k (c # s)) = None) \<and>
        sub_all t (c # s) = [] @ expand_template t (take n (c # s)) @ drop n (c # s)"
      by simp
    then show ?thesis by blast
  next
    case None
    with Cons.prems have "newline \<notin> set s" and "has_match s" by simp_all
    with Cons.IH obtain pre m suf where s: "s = pre @ m @ suf"
      and m: "match_len (m @ suf) = Some (length m)"
      and k: "\<forall>k<length pre. match_len (drop k s) = None"
      and f: "sub_all t s = pre @ expand_template t m @ suf"
      by blast
    have "\<forall>k<length (c # pre). match_len (drop k (c # s)) = None"
    proof (intro allI impI)
      fix j assume "j < length (c # pre)"
      then show "match_len (drop j (c # s)) = None"
        using None k by (cases j) auto
    qed
    moreover have "c # s = (c # pre) @ m @ suf" using s by simp
    moreover have "sub_all t (c # s) = (c # pre) @ expand_template t m @ suf" using None f by simp
    ultimately show ?thesis using m by blast
  qed
qed
subsection \<open>Line ends on the disk\<close>

text \<open>
  What is read holds no carriage return; a text without carriage return is read as it
  is, and on either platform it is read back as it was written.
\<close>

lemma universal_newlines_no_cr: "carriage_return \<notin> set (universal_newlines s)"
  by (induction s rule: universal_newlines.induct)
     (auto simp: carriage_return_def newline_def)

lemma universal_newlines_plain:
  "carriage_return \<notin> set s \<Longrightarrow> universal_newlines s = s"
  by (induction s rule: universal_newlines.induct) auto

lemma to_disk_posix: "to_disk Posix s = s"
  by (induction s) (auto simp: to_disk_def linesep_def)

lemma to_disk_Cons:
  "to_disk pf (c # s) = (if c = newline then linesep pf else [c]) @ to_disk pf s"
  by (simp add: to_disk_def)

lemma read_back:
  "carriage_return \<notin> set s \<Longrightarrow> universal_newlines (to_disk pf s) = s"
proof (induction s)
  case Nil
  then show ?case by (simp add: to_disk_def)
next
  case (Cons c s)
  then have ih: "universal_newlines (to_disk pf s) = s" and c: "c \<noteq> carriage_return"
    by auto
  show ?case
  proof (cases pf)
    case Posix
    with Cons.prems show ?thesis
      by (simp add: to_disk_posix universal_newlines_plain)
  next
    case Windows
    show ?thesis
    proof (cases "c = newline")
      case True
      then show ?thesis using ih Windows by (simp add: to_disk_Cons linesep_def)
    next
      case False
      then show ?thesis using ih c
        by (cases "to_disk pf s") (simp_all add: to_disk_Cons)
    qed
  qed
qed

subsection \<open>Templates without a group reference\<close>

text \<open>
  The scan uses its template only through the replacement of each match, and a template
  without a group reference replaces every match by the same text.
\<close>

lemma sub_all_cong:
  "(\<And>m. expand_template t m = expand_template t' m) \<Longrightarrow> sub_all t s = sub_all t' s"
  by (induction t s rule: sub_all.induct) (auto split: option.splits)

lemma expand_template_const:
  "Whole_match \<notin> set t \<Longrightarrow> expand_template t m = expand_template t []"
  by (induction t) (auto simp: expand_template_def split: piece.splits)

lemma expand_template_chars:
  "Whole_match \<notin> set t \<Longrightarrow> c \<in> set (expand_template t m) \<longleftrightarrow> Lit c \<in> set t"
  by (induction t) (auto simp: expand_template_def split: piece.splits)

lemma expand_template_append:
  "expand_template (t @ u) m = expand_template t m @ expand_template u m"
  by (simp add: expand_template_def)

lemma sub_all_literal:
  assumes "Whole_match \<notin> set t"
  shows "sub_all t s = sub_all (map Lit (expand_template t [])) s"
proof (rule sub_all_cong)
  fix m
  show "expand_template t m = expand_template (map Lit (expand_template t [])) m"
    using expand_template_const [OF assms, of m] by (simp add: expand_template_plain)
qed

text \<open>
  A well-formed template made of the assignment starts with the literal part of the
  pattern and ends with the closing quote: no escape takes the quote in.
\<close>

lemma then_pieces_Inr:
  "then_pieces ps r = Inr t \<longleftrightarrow> (\<exists>u. r = Inr u \<and> t = ps @ u)"
  by (auto simp: then_pieces_def split: sum.splits)

lemma parse_template_plain_prefix:
  "backslash \<notin> set k \<Longrightarrow> parse_template (k @ s) = then_pieces (map Lit k) (parse_template s)"
  by (induction k) (auto simp: then_pieces_def split: sum.splits)

lemma octal_not_quote: "\<not> is_octal dquote"
  by (simp add: is_octal_def dquote_def)

lemma takeWhile_octal_quote:
  "takeWhile is_octal (take 2 (s @ [dquote])) = takeWhile is_octal (take 2 s)"
proof (cases s)
  case Nil
  then show ?thesis by (simp add: octal_not_quote)
next
  case (Cons a s')
  then show ?thesis by (cases s') (simp_all add: octal_not_quote numeral_2_eq_2)
qed

lemma parse_template_ends_with_quote:
  "parse_template (s @ [dquote]) = Inr t \<Longrightarrow> \<exists>u. t = u @ [Lit dquote]"
proof (induction s arbitrary: t rule: length_induct)
  case (1 s)
  note ih = "1.IH" [rule_format]
  show ?case
  proof (cases s)
    case Nil
    with "1.prems" show ?thesis
      by (simp add: then_pieces_def dquote_def backslash_def)
  next
    case (Cons c s1)
    show ?thesis
    proof (cases "c = backslash")
      case False
      with Cons "1.prems" obtain u where u: "parse_template (s1 @ [dquote]) = Inr u" "t = Lit c # u"
        by (auto simp: then_pieces_Inr)
      from ih [of s1 u] u(1) Cons obtain u' where "u = u' @ [Lit dquote]" by auto
      with u(2) show ?thesis by simp
    next
      case True
      note bs = True
      show ?thesis
      proof (cases s1)
        case Nil
        with Cons bs "1.prems" show ?thesis
          by (auto simp: then_pieces_def escapes_def is_digit_def is_ascii_letter_def
                dquote_def backslash_def)
      next
        case s1: (Cons e s2)
        have p: "parse_template (backslash # e # s2 @ [dquote]) = Inr t"
          using "1.prems" Cons bs s1 by simp
        consider (g) "e = CHR ''g''" | (z) "e = CHR ''0''"
          | (d) "e \<noteq> CHR ''g''" "e \<noteq> CHR ''0''" "is_digit e"
          | (o) "e \<noteq> CHR ''g''" "e \<noteq> CHR ''0''" "\<not> is_digit e"
          by blast
        then show ?thesis
        proof cases
          case g
          show ?thesis
          proof (cases s2)
            case Nil
            with p g show ?thesis by (simp add: dquote_def)
          next
            case s2: (Cons lt s3)
            let ?P = "\<lambda>x. x \<noteq> CHR ''>''"
            from p g s2 have
              ok: "dropWhile ?P (s3 @ [dquote]) \<noteq> []"
              and q: "then_pieces [Whole_match] (parse_template (tl (dropWhile ?P (s3 @ [dquote])))) = Inr t"
              by (auto simp: Let_def split: if_splits)
            have ex: "\<exists>x\<in>set s3. \<not> ?P x"
            proof (rule ccontr)
              assume "\<not> (\<exists>x\<in>set s3. \<not> ?P x)"
              then have "dropWhile ?P (s3 @ [dquote]) = []"
                by (auto simp: dquote_def)
              with ok show False by simp
            qed
            then have dw: "dropWhile ?P (s3 @ [dquote]) = dropWhile ?P s3 @ [dquote]"
              by (simp add: dropWhile_append1)
            from ex have ne: "dropWhile ?P s3 \<noteq> []" by simp
            then have tl: "tl (dropWhile ?P s3 @ [dquote]) = tl (dropWhile ?P s3) @ [dquote]"
              by simp
            from q obtain u where u: "parse_template (tl (dropWhile ?P s3) @ [dquote]) = Inr u"
              "t = Whole_match # u"
              by (auto simp: then_pieces_Inr dw tl)
            have "length (tl (dropWhile ?P s3)) < length s"
              using length_dropWhile_le [of ?P s3] ne
              by (cases "dropWhile ?P s3") (simp_all add: Cons s1 s2)
            from ih [OF this u(1)] u(2) show ?thesis by auto
          qed
        next
          case z
          let ?ds = "takeWhile is_octal (take 2 s2)"
          from p z have "then_pieces [Lit (char_of (octal_value ?ds))]
                (parse_template (drop (length ?ds) (s2 @ [dquote]))) = Inr t"
            by (simp add: Let_def takeWhile_octal_quote del: take_append drop_append)
          moreover have "length ?ds \<le> length s2"
            using length_takeWhile_le [of is_octal "take 2 s2"] by simp
          ultimately obtain u where
            u: "parse_template (drop (length ?ds) s2 @ [dquote]) = Inr u"
            "t = Lit (char_of (octal_value ?ds)) # u"
            by (auto simp: then_pieces_Inr)
          have "length (drop (length ?ds) s2) < length s" by (simp add: Cons s1)
          from ih [OF this u(1)] u(2) show ?thesis by auto
        next
          case d
          show ?thesis
          proof (cases s2)
            case Nil
            with p d show ?thesis by simp
          next
            case s2: (Cons d2 s3)
            show ?thesis
            proof (cases s3)
              case Nil
              with p d s2 show ?thesis by (simp add: octal_not_quote)
            next
              case s3: (Cons d3 s4)
              with p d s2 obtain u where u: "parse_template (s4 @ [dquote]) = Inr u"
                "t = Lit (char_of (octal_value [e, d2, d3])) # u"
                by (auto simp: then_pieces_Inr split: if_splits)
              have "length s4 < length s" by (simp add: Cons s1 s2 s3)
              from ih [OF this u(1)] u(2) show ?thesis by auto
            qed
          qed
        next
          case o
          have len: "length s2 < length s" by (simp add: Cons s1)
          show ?thesis
          proof (cases "escapes e")
            case (Some x)
            with p o obtain u where u: "parse_template (s2 @ [dquote]) = Inr u" "t = Lit x # u"
              by (auto simp: then_pieces_Inr)
            from ih [OF len u(1)] u(2) show ?thesis by auto
          next
            case None
            with p o obtain u where u: "parse_template (s2 @ [dquote]) = Inr u"
              "t = Lit backslash # Lit e # u"
              by (auto simp: then_pieces_Inr split: if_splits)
            from ih [OF len u(1)] u(2) show ?thesis by auto
          qed
        qed
      qed
    qed
  qed
qed

lemma key_plain: "backslash \<notin> set requires_python_key"
  by (simp add: requires_python_key_def backslash_def dquote_def)

lemma template_shape:
  assumes "parse_template (assignment v) = Inr t" and "Whole_match \<notin> set t"
  shows "\<exists>x. (\<forall>m. expand_template t m = assignment x) \<and> (\<forall>c\<in>set x. Lit c \<in> set t)"
proof -
  from assms(1) obtain u where u: "parse_template (v @ [dquote]) = Inr u"
    and t: "t = map Lit requires_python_key @ u"
    by (auto simp: assignment_def parse_template_plain_prefix [OF key_plain] then_pieces_Inr)
  from parse_template_ends_with_quote [OF u] obtain u' where u': "u = u' @ [Lit dquote]"
    by blast
  from assms(2) t u' have w: "Whole_match \<notin> set u'" by simp
  let ?x = "expand_template u' []"
  have "expand_template t m = assignment ?x" for m
    using expand_template_const [OF w, of m]
    by (simp add: t u' expand_template_append expand_template_plain assignment_def)
       (simp add: expand_template_def)
  moreover have "\<forall>c\<in>set ?x. Lit c \<in> set t"
    using expand_template_chars [OF w] by (simp add: t u')
  ultimately show ?thesis by blast
qed

text \<open>A character that neither the text nor the replacement holds is not in the result.\<close>

lemma sub_all_keeps_free:
  "z \<notin> set r \<Longrightarrow> z \<notin> set s \<Longrightarrow> z \<notin> set (sub_all (map Lit r) s)"
proof (induction "map Lit r" s rule: sub_all.induct)
  case 1
  then show ?case by simp
next
  case (2 c s)
  show ?case
  proof (cases "match_len (c # s)")
    case None
    with 2 show ?thesis by simp
  next
    case (Some n)
    have "z \<notin> set (drop n (c # s))"
      using "2.prems"(2) by (meson in_set_dropD)
    with "2.hyps"(2) [OF Some "2.prems"(1)] have "z \<notin> set (sub_all (map Lit r) (drop n (c # s)))"
      by simp
    with Some "2.prems"(1) show ?thesis
      by (simp add: expand_template_plain)
  qed
qed

subsection \<open>A text and its lines\<close>

lemma join_with_Cons:
  "join_with sep ((c # a) # ls) = c # join_with sep (a # ls)"
  by (cases ls) simp_all

lemma join_with_more:
  "ls \<noteq> [] \<Longrightarrow> join_with sep (x # ls) = x @ sep # join_with sep ls"
  by (cases ls) simp_all

lemma split_on_nonempty: "split_on sep s \<noteq> []"
  by (induction s) (auto split: list.splits)

lemma join_split: "join_with sep (split_on sep s) = s"
proof (induction s)
  case Nil
  then show ?case by simp
next
  case (Cons c s)
  show ?case
  proof (cases "c = sep")
    case True
    with Cons show ?thesis by (simp add: join_with_more split_on_nonempty)
  next
    case False
    with Cons show ?thesis
      by (cases "split_on sep s") (simp_all add: split_on_nonempty join_with_Cons)
  qed
qed

lemma sub_all_join:
  "ls \<noteq> [] \<Longrightarrow> list_all (\<lambda>l. newline \<notin> set l) ls \<Longrightarrow>
   sub_all t (join_with newline ls) = join_with newline (map (sub_all t) ls)"
proof (induction ls rule: list_nonempty_induct)
  case (single x)
  then show ?case by simp
next
  case (cons x xs)
  then show ?case by (simp add: join_with_more sub_all_line)
qed

lemma sub_all_by_lines:
  "sub_all t s = join_with newline (map (sub_all t) (split_on newline s))"
proof -
  have "sub_all t (join_with newline (split_on newline s))
          = join_with newline (map (sub_all t) (split_on newline s))"
    using split_on_nonempty split_on_lines_free by (rule sub_all_join)
  then show ?thesis by (simp add: join_split)
qed

text \<open>
  Written to the disk, a text is its lines joined by the line separator of the platform;
  a line without line feed is written as it is.
\<close>

lemma to_disk_append: "to_disk pf (a @ b) = to_disk pf a @ to_disk pf b"
  by (simp add: to_disk_def)

lemma to_disk_line: "newline \<notin> set l \<Longrightarrow> to_disk pf l = l"
  by (induction l) (auto simp: to_disk_Cons to_disk_def)

lemma to_disk_join:
  "to_disk pf (join_with newline ls) = join_lines (linesep pf) (map (to_disk pf) ls)"
  by (induction ls rule: join_with.induct [where ?a0.0 = newline and ?P = "\<lambda>sep ls.
        to_disk pf (join_with newline ls) = join_lines (linesep pf) (map (to_disk pf) ls)"])
     (simp_all add: to_disk_def to_disk_append to_disk_Cons)

lemma to_disk_lines:
  "to_disk pf s = join_lines (linesep pf) (split_on newline s)"
proof -
  have "map (to_disk pf) (split_on newline s) = split_on newline s"
    using split_on_lines_free [of newline s]
    by (intro map_idI) (auto simp: list_all_iff to_disk_line)
  with to_disk_join [of pf "split_on newline s"] show ?thesis by (simp add: join_split)
qed
subsection \<open>What a call of \<open>update_pyproject_toml\<close> does\<close>

lemma update_unreadable:
  "pyproject w = Unreadable e \<Longrightarrow>
   update_pyproject_toml v env w = (Inl e, record_event Read_pyproject w)"
  by (simp add: update_pyproject_toml_def Let_def)

lemma update_malformed:
  "pyproject w = Text raw \<Longrightarrow> parse_template (assignment v) = Inl e \<Longrightarrow>
   update_pyproject_toml v env w = (Inl e, record_event Read_pyproject w)"
  by (simp add: update_pyproject_toml_def re_sub_def Let_def)

lemma update_written:
  assumes "pyproject w = Text raw" and "parse_template (assignment v) = Inr t"
    and "write_result env (sub_all t (universal_newlines raw)) = Written"
  shows "update_pyproject_toml v env w =
     (Inr (), \<lparr>pyproject = Text (to_disk (platform env) (sub_all t (universal_newlines raw))),
               events = events w @
                 [Read_pyproject, Wrote_pyproject (sub_all t (universal_newlines raw))]\<rparr>)"
  using assms by (simp add: update_pyproject_toml_def re_sub_def Let_def record_event_def)

lemma update_refused:
  assumes "pyproject w = Text raw" and "parse_template (assignment v) = Inr t"
    and "write_result env (sub_all t (universal_newlines raw)) = Refused e"
  shows "update_pyproject_toml v env w =
     (Inl e, \<lparr>pyproject = Text raw,
              events = events w @
                 [Read_pyproject, Wrote_pyproject (sub_all t (universal_newlines raw))]\<rparr>)"
  using assms by (simp add: update_pyproject_toml_def re_sub_def Let_def record_event_def)

lemma default_plain: "backslash \<notin> set ''>=3.8''"
  by (simp add: backslash_def)

lemma sample_plain: "universal_newlines (sample_pyproject ''>=3.7'') = sample_pyproject ''>=3.7''"
  by code_simp

lemma sample_default:
  "sub_all (map Lit (assignment ''>=3.8'')) (sample_pyproject ''>=3.7'') = sample_pyproject ''>=3.8''"
  by code_simp

subsection \<open>Placeholders that are their own value\<close>

text \<open>
  A text without backslash, double quote, NUL and line break stands for itself in the
  string literal; so does every blank text without a line break.
\<close>

lemma literal_value_plain:
  "backslash \<notin> set p \<Longrightarrow> dquote \<notin> set p \<Longrightarrow> nul \<notin> set p \<Longrightarrow>
   newline \<notin> set p \<Longrightarrow> carriage_return \<notin> set p \<Longrightarrow> string_literal_value p = Some p"
  by (induction p) auto

lemma space_plain:
  "is_space c \<Longrightarrow> c \<noteq> backslash \<and> c \<noteq> dquote \<and> c \<noteq> nul"
  by (auto simp: is_space_def backslash_def dquote_def nul_def)

lemma literal_value_blank:
  assumes "\<forall>c\<in>set p. is_space c" and "newline \<notin> set p" and "carriage_return \<notin> set p"
  shows "string_literal_value p = Some p"
proof (rule literal_value_plain)
  show "backslash \<notin> set p" using assms(1) space_plain by blast
  show "dquote \<notin> set p" using assms(1) space_plain by blast
  show "nul \<notin> set p" using assms(1) space_plain by blast
qed (use assms in simp_all)

subsection \<open>Version discovery\<close>

text \<open>
  Claim C4, as the code has it.  Whenever the \<open>pyenv\<close> command has run to completion,
  whatever its exit status and its output text, \<open>get_installed_python_versions\<close> returns
  a list and raises nothing, and the list is empty when the exit status is not 0.  (When
  the command cannot be started, or its output cannot be decoded, the exception of
  \<open>subprocess.run\<close> leaves the function.)
\<close>

theorem installed_versions_completed:
  assumes "pyenv_versions env = Completed returncode out"
  shows "\<exists>vs. fst (get_installed_python_versions env w) = Inr vs \<and>
              (returncode \<noteq> 0 \<longrightarrow> vs = [])"
  using assms by (simp add: get_installed_python_versions_def Let_def)

text \<open>A run of \<open>pyenv\<close> that exits with status 1 gives the empty list, whatever it printed.\<close>

theorem installed_versions_completed_witness:
  "fst (get_installed_python_versions
          (posix_environment (Completed 1 ''3.9.1''))
          \<lparr>pyproject = Text (sample_pyproject ''>=3.7''), events = []\<rparr>) = Inr []"
proof -
  have "pyenv_versions (posix_environment (Completed 1 ''3.9.1'')) = Completed 1 ''3.9.1''"
    by (simp add: posix_environment_def)
  from installed_versions_completed [OF this,
      of "\<lparr>pyproject = Text (sample_pyproject ''>=3.7''), events = []\<rparr>"]
  show ?thesis by auto
qed

text \<open>
  Claim C4 as stated fails when \<open>pyenv\<close> is absent: \<open>subprocess.run\<close> raises
  \<open>FileNotFoundError\<close>, which the function does not catch.
\<close>

theorem installed_versions_not_started:
  "fst (get_installed_python_versions
          (posix_environment Not_started)
          \<lparr>pyproject = Text (sample_pyproject ''>=3.7''), events = []\<rparr>)
   = Inl (File_not_found_error ''pyenv'')"
  by (simp add: get_installed_python_versions_def posix_environment_def Let_def)

subsection \<open>The fallback to the default\<close>

text \<open>
  Claim C2, as the code has it.  Take a run in which the literal of line 48 has a blank
  value (as it has for a blank placeholder), \<open>pyenv versions\<close> completes with an output
  that can be decoded and an exit status other than 0, \<open>pyproject.toml\<close> can be read and
  the patched text can be written.  Then the selected minimum version is \<open>>=3.8\<close>, the
  file is rewritten with that value in its \<open>requires-python\<close> assignments, and the
  toolchain is activated for it.
\<close>

theorem nonzero_exit_default:
  assumes "string_literal_value p = Some m" and "strip m = []"
    and "pyenv_versions env = Completed returncode out" and "returncode \<noteq> 0"
    and "pyproject w = Text on_disk"
    and "write_result env
           (sub_all (map Lit (assignment ''>=3.8'')) (universal_newlines on_disk)) = Written"
  shows "hook p env w = Some (main m env w) \<and>
         fst (determine_min_python m env w) = Inr ''>=3.8'' \<and>
         pyproject (snd (determine_min_python m env w)) =
           Text (to_disk (platform env)
                   (sub_all (map Lit (assignment ''>=3.8'')) (universal_newlines on_disk))) \<and>
         Wrote_pyproject (sub_all (map Lit (assignment ''>=3.8'')) (universal_newlines on_disk))
           \<in> set (events (snd (main m env w))) \<and>
         Ran_shell (pdm_use_command ''>=3.8'') \<in> set (events (snd (main m env w)))"
proof -
  let ?u = "sub_all (map Lit (assignment ''>=3.8'')) (universal_newlines on_disk)"
  let ?w1 = "record_event Called_pyenv_versions w"
  let ?w2 = "record_event
               (Printed ''Warning: Could not determine latest Python version. Using default.'') ?w1"
  let ?w3 = "\<lparr>pyproject = Text (to_disk (platform env) ?u),
             events = events ?w2 @ [Read_pyproject, Wrote_pyproject ?u]\<rparr>"
  have g: "get_installed_python_versions env w = (Inr [], ?w1)"
    using assms(3,4) by (simp add: get_installed_python_versions_def Let_def)
  have l: "get_latest_installed_python_version [] = Inr None"
    by (simp add: get_latest_installed_python_version_def)
  have f: "pyproject ?w2 = Text on_disk"
    using assms(5) by (simp add: record_event_def)
  have u: "update_pyproject_toml ''>=3.8'' env ?w2 = (Inr (), ?w3)"
    using f assignment_template [OF default_plain] assms(6) by (rule update_written)
  have d: "determine_min_python m env w = (Inr ''>=3.8'', ?w3)"
    using assms(2) g l u by (simp add: determine_min_python_def Let_def)
  have n: "nul \<notin> set (pdm_use_command ''>=3.8'')"
    by (simp add: pdm_use_command_def nul_def)
  have h: "hook p env w = Some (main m env w)"
    using assms(1) by (simp add: hook_def)
  have e: "Wrote_pyproject ?u \<in> set (events (snd (main m env w))) \<and>
           Ran_shell (pdm_use_command ''>=3.8'') \<in> set (events (snd (main m env w)))"
    using n by (simp add: main_def d Let_def record_event_def split: prod.splits)
  from h d e show ?thesis by simp
qed

text \<open>
  With exit status 127 and a placeholder of one space, the sample file ends with
  \<open>>=3.8\<close> in place of \<open>>=3.7\<close>.
\<close>

theorem nonzero_exit_default_witness:
  "string_literal_value '' '' = Some '' '' \<and> strip '' '' = [] \<and>
   fst (determine_min_python '' '' (posix_environment (Completed 127 ''3.9.1''))
          \<lparr>pyproject = Text (sample_pyproject ''>=3.7''), events = []\<rparr>) = Inr ''>=3.8'' \<and>
   pyproject (snd (determine_min_python '' '' (posix_environment (Completed 127 ''3.9.1''))
          \<lparr>pyproject = Text (sample_pyproject ''>=3.7''), events = []\<rparr>))
     = Text (sample_pyproject ''>=3.8'')"
proof -
  let ?env = "posix_environment (Completed 127 ''3.9.1'')"
  let ?w = "\<lparr>pyproject = Text (sample_pyproject ''>=3.7''), events = []\<rparr>"
  have 1: "string_literal_value '' '' = Some '' ''" by code_simp
  have 2: "strip '' '' = []" by (simp add: strip_def is_space_def)
  have 3: "pyenv_versions ?env = Completed 127 ''3.9.1''" by (simp add: posix_environment_def)
  have 4: "(127::int) \<noteq> 0" by simp
  have 5: "pyproject ?w = Text (sample_pyproject ''>=3.7'')" by simp
  have 6: "write_result ?env (sub_all (map Lit (assignment ''>=3.8''))
             (universal_newlines (sample_pyproject ''>=3.7''))) = Written"
    by (simp add: posix_environment_def every_write_succeeds_def)
  have 7: "platform ?env = Posix" by (simp add: posix_environment_def)
  from nonzero_exit_default [OF 1 2 3 4 5 6] 1 2 show ?thesis
    by (simp add: sample_plain sample_default 7 to_disk_posix)
qed

text \<open>
  Claim C2 as stated fails in each of these runs with a blank placeholder.  When \<open>pyenv\<close>
  is absent the run ends in \<open>FileNotFoundError\<close>, and when its output cannot be decoded
  in \<open>UnicodeDecodeError\<close>: no version is selected and the file keeps its text.  When
  \<open>pyenv\<close> exits with status 1 and \<open>pyproject.toml\<close> is missing, or the disk refuses the
  write, the fallback is taken but the default is not written.
\<close>

theorem default_not_written:
  "hook '''' (posix_environment Not_started)
     \<lparr>pyproject = Text (sample_pyproject ''>=3.7''), events = []\<rparr> =
   Some (Inl (File_not_found_error ''pyenv''),
         \<lparr>pyproject = Text (sample_pyproject ''>=3.7''), events = [Called_pyenv_versions]\<rparr>) \<and>
   hook '''' (posix_environment Undecodable)
     \<lparr>pyproject = Text (sample_pyproject ''>=3.7''), events = []\<rparr> =
   Some (Inl Unicode_decode_error,
         \<lparr>pyproject = Text (sample_pyproject ''>=3.7''), events = [Called_pyenv_versions]\<rparr>) \<and>
   hook '''' (posix_environment (Completed 1 []))
     \<lparr>pyproject = Unreadable (File_not_found_error ''pyproject.toml''), events = []\<rparr> =
   Some (Inl (File_not_found_error ''pyproject.toml''),
         \<lparr>pyproject = Unreadable (File_not_found_error ''pyproject.toml''),
          events = [Called_pyenv_versions,
                    Printed ''Warning: Could not determine latest Python version. Using default.'',
                    Read_pyproject]\<rparr>) \<and>
   hook '''' (environment_with_disk (Completed 1 []) refusing_disk)
     \<lparr>pyproject = Text (sample_pyproject ''>=3.7''), events = []\<rparr> =
   Some (Inl (Permission_error ''pyproject.toml''),
         \<lparr>pyproject = Text (sample_pyproject ''>=3.7''),
          events = [Called_pyenv_versions,
                    Printed ''Warning: Could not determine latest Python version. Using default.'',
                    Read_pyproject,
                    Wrote_pyproject (sample_pyproject ''>=3.8'')]\<rparr>)"
  by code_simp

text \<open>
  Claim C6.  When no candidate matches the version pattern,
  \<open>get_latest_installed_python_version\<close> returns \<open>None\<close>; the caller, in the branch of a
  blank \<open>min_python\<close>, then prints the warning and calls \<open>update_pyproject_toml\<close> with
  \<open>>=3.8\<close>, which becomes the selected version, and a \<open>pyproject.toml\<close> that can be read
  and written is rewritten with that value.
\<close>

theorem no_match_default_path:
  assumes "\<forall>u\<in>set vs. \<not> version_match u"
  shows "get_latest_installed_python_version vs = Inr None \<and>
         (strip m = [] \<longrightarrow> get_installed_python_versions env w = (Inr vs, w1) \<longrightarrow>
            determine_min_python m env w =
              (case update_pyproject_toml ''>=3.8'' env
                      (record_event
                         (Printed ''Warning: Could not determine latest Python version. Using default.'')
                         w1) of
                 (Inl e, w3) \<Rightarrow> (Inl e, w3)
               | (Inr u, w3) \<Rightarrow> (Inr ''>=3.8'', w3)) \<and>
            (\<forall>on_disk. pyproject w1 = Text on_disk \<longrightarrow>
               write_result env
                 (sub_all (map Lit (assignment ''>=3.8'')) (universal_newlines on_disk)) = Written \<longrightarrow>
               fst (determine_min_python m env w) = Inr ''>=3.8'' \<and>
               pyproject (snd (determine_min_python m env w)) =
                 Text (to_disk (platform env)
                         (sub_all (map Lit (assignment ''>=3.8'')) (universal_newlines on_disk)))))"
proof -
  let ?w2 = "record_event
               (Printed ''Warning: Could not determine latest Python version. Using default.'') w1"
  from assms have "filter version_match vs = []" by (simp add: filter_empty_conv)
  then have l: "get_latest_installed_python_version vs = Inr None"
    by (simp add: get_latest_installed_python_version_def)
  have u: "update_pyproject_toml ''>=3.8'' env ?w2 =
        (Inr (), \<lparr>pyproject = Text (to_disk (platform env)
                     (sub_all (map Lit (assignment ''>=3.8'')) (universal_newlines on_disk))),
               events = events ?w2 @
                 [Read_pyproject,
                  Wrote_pyproject (sub_all (map Lit (assignment ''>=3.8''))
                                     (universal_newlines on_disk))]\<rparr>)"
    if "pyproject w1 = Text on_disk"
      and "write_result env
             (sub_all (map Lit (assignment ''>=3.8'')) (universal_newlines on_disk)) = Written"
    for on_disk
    using that by (intro update_written assignment_template default_plain)
                  (simp_all add: record_event_def)
  show ?thesis
    using l u by (auto simp: determine_min_python_def Let_def)
qed

text \<open>The candidates \<open>2.7.18\<close> and \<open>3.6\<close> do not match; the run takes the fallback.\<close>

theorem no_match_default_path_witness:
  "\<not> version_match ''2.7.18'' \<and> \<not> version_match ''3.6'' \<and>
   get_latest_installed_python_version [''2.7.18'', ''3.6''] = Inr None \<and>
   determine_min_python '''' (posix_environment (Completed 0 ''2.7.18\<newline>3.6\<newline>''))
       \<lparr>pyproject = Text (sample_pyproject ''>=3.7''), events = []\<rparr> =
     (Inr ''>=3.8'',
      \<lparr>pyproject = Text (sample_pyproject ''>=3.8''),
       events = [Called_pyenv_versions,
                 Printed ''Warning: Could not determine latest Python version. Using default.'',
                 Read_pyproject,
                 Wrote_pyproject (sample_pyproject ''>=3.8'')]\<rparr>)"
proof -
  let ?env = "posix_environment (Completed 0 ''2.7.18\<newline>3.6\<newline>'')"
  let ?w = "\<lparr>pyproject = Text (sample_pyproject ''>=3.7''), events = []\<rparr>"
  let ?w1 = "\<lparr>pyproject = Text (sample_pyproject ''>=3.7''), events = [Called_pyenv_versions]\<rparr>"
  let ?w2 = "record_event
               (Printed ''Warning: Could not determine latest Python version. Using default.'') ?w1"
  have a: "\<not> version_match ''2.7.18''" and b: "\<not> version_match ''3.6''" by code_simp+
  then have n: "\<forall>u\<in>set [''2.7.18'', ''3.6'']. \<not> version_match u" by simp
  have s: "strip '''' = []" by (simp add: strip_def)
  have ls: "splitlines (strip ''2.7.18\<newline>3.6\<newline>'') = [''2.7.18'', ''3.6'']" by code_simp
  have g: "get_installed_python_versions ?env ?w = (Inr [''2.7.18'', ''3.6''], ?w1)"
    by (simp add: get_installed_python_versions_def posix_environment_def Let_def ls
          record_event_def)
  have f: "pyproject ?w2 = Text (sample_pyproject ''>=3.7'')"
    by (simp add: record_event_def)
  have wr: "write_result ?env (sub_all (map Lit (assignment ''>=3.8''))
             (universal_newlines (sample_pyproject ''>=3.7''))) = Written"
    by (simp add: posix_environment_def every_write_succeeds_def)
  have pf: "platform ?env = Posix" by (simp add: posix_environment_def)
  from no_match_default_path [OF n, of "''''" ?env ?w ?w1] s g
  have l: "get_latest_installed_python_version [''2.7.18'', ''3.6''] = Inr None"
    and d: "determine_min_python '''' ?env ?w =
              (case update_pyproject_toml ''>=3.8'' ?env ?w2 of
                 (Inl e, w3) \<Rightarrow> (Inl e, w3)
               | (Inr u, w3) \<Rightarrow> (Inr ''>=3.8'', w3))"
    by blast+
  have "determine_min_python '''' ?env ?w =
     (Inr ''>=3.8'',
      \<lparr>pyproject = Text (sample_pyproject ''>=3.8''),
       events = [Called_pyenv_versions,
                 Printed ''Warning: Could not determine latest Python version. Using default.'',
                 Read_pyproject,
                 Wrote_pyproject (sample_pyproject ''>=3.8'')]\<rparr>)"
    unfolding d update_written [OF f assignment_template [OF default_plain] wr]
    by (simp add: record_event_def sample_plain sample_default pf to_disk_posix)
  with a b l show ?thesis by (intro conjI)
qed
subsection \<open>Toolchain activation\<close>

text \<open>
  Claim C5.  When the script reaches the toolchain activation and the \<open>pdm use\<close> command
  line exits with a status other than 0, \<open>main\<close> ends in an exception, which nothing in
  the script catches, and the process exits with a status other than 0.  The exception
  is \<open>CalledProcessError\<close> whenever the command line could be handed to the shell, that
  is whenever it holds no NUL.
\<close>

theorem activation_failure_fatal:
  assumes "determine_min_python m env w = (Inr v, w1)"
    and "fst (shell env (pdm_use_command v) (pyproject w1)) \<noteq> 0"
  shows "(\<exists>e. fst (main m env w) = Inl e) \<and> exit_status (main m env w) \<noteq> 0 \<and>
         (nul \<notin> set v \<longrightarrow>
            main m env w =
              (Inl (Called_process_error (fst (shell env (pdm_use_command v) (pyproject w1)))
                      (pdm_use_command v)),
               record_event (Ran_shell (pdm_use_command v))
                 (w1\<lparr>pyproject := snd (shell env (pdm_use_command v) (pyproject w1))\<rparr>)))"
  using assms
  by (auto simp: main_def Let_def exit_status_def pdm_use_command_def nul_def
           split: prod.splits)

text \<open>A run with the value \<open>3.10\<close> in which the command exits with status 1.\<close>

theorem activation_failure_fatal_witness:
  "determine_min_python ''3.10''
       \<lparr>pyenv_versions = Not_started, platform = Posix,
        write_result = every_write_succeeds, shell = every_command_fails\<rparr>
       \<lparr>pyproject = Text (sample_pyproject ''>=3.7''), events = []\<rparr>
     = (Inr ''3.10'', \<lparr>pyproject = Text (sample_pyproject ''>=3.7''), events = []\<rparr>) \<and>
   fst (every_command_fails (pdm_use_command ''3.10'') (Text (sample_pyproject ''>=3.7''))) = 1 \<and>
   nul \<notin> set ''3.10'' \<and>
   main ''3.10''
       \<lparr>pyenv_versions = Not_started, platform = Posix,
        write_result = every_write_succeeds, shell = every_command_fails\<rparr>
       \<lparr>pyproject = Text (sample_pyproject ''>=3.7''), events = []\<rparr> =
     (Inl (Called_process_error 1 ''pdm use $(pyenv prefix 3.10)/bin/python''),
      \<lparr>pyproject = Text (sample_pyproject ''>=3.7''),
       events = [Ran_shell ''pdm use $(pyenv prefix 3.10)/bin/python'']\<rparr>) \<and>
   exit_status (main ''3.10''
       \<lparr>pyenv_versions = Not_started, platform = Posix,
        write_result = every_write_succeeds, shell = every_command_fails\<rparr>
       \<lparr>pyproject = Text (sample_pyproject ''>=3.7''), events = []\<rparr>) = 1"
proof -
  let ?env = "\<lparr>pyenv_versions = Not_started, platform = Posix,
               write_result = every_write_succeeds, shell = every_command_fails\<rparr>"
  let ?w = "\<lparr>pyproject = Text (sample_pyproject ''>=3.7''), events = []\<rparr>"
  have d: "determine_min_python ''3.10'' ?env ?w = (Inr ''3.10'', ?w)"
    by (simp add: determine_min_python_def strip_def is_space_def)
  have f: "fst (shell ?env (pdm_use_command ''3.10'') (pyproject ?w)) \<noteq> 0"
    by (simp add: every_command_fails_def)
  have n: "nul \<notin> set ''3.10''" by (simp add: nul_def)
  from activation_failure_fatal [OF d f] d n show ?thesis
    by (simp add: every_command_fails_def pdm_use_command_def record_event_def exit_status_def)
qed

text \<open>
  Claim C10, as the code has it.  When the value of the literal of line 48 holds a
  character that is not white space, the script discovers no version and does not touch
  \<open>pyproject.toml\<close> itself: \<open>pyenv versions\<close> is not called, \<open>update_pyproject_toml\<close> is
  not called (the file is neither read nor written by the script), and the one step is
  the toolchain activation, with the value as it is.  \<open>subprocess.run\<close> starts the
  command unless the value holds a NUL; what the file holds afterwards is what the
  command left.  This holds for every placeholder with that value.
\<close>

theorem given_version_only_activates:
  assumes "\<exists>c\<in>set m. \<not> is_space c"
  shows "determine_min_python m env w = (Inr m, w) \<and>
         main m env w =
          (if nul \<in> set m then (Inl Value_error, w)
           else if fst (shell env (pdm_use_command m) (pyproject w)) \<noteq> 0 then
             (Inl (Called_process_error (fst (shell env (pdm_use_command m) (pyproject w)))
                     (pdm_use_command m)),
              \<lparr>pyproject = snd (shell env (pdm_use_command m) (pyproject w)),
               events = events w @ [Ran_shell (pdm_use_command m)]\<rparr>)
           else
             (Inr (),
              \<lparr>pyproject = snd (shell env (pdm_use_command m) (pyproject w)),
               events = events w @
                 [Ran_shell (pdm_use_command m),
                  Printed (''Using Python version specified in pyproject.toml: '' @ m),
                  Printed ''Project setup complete!'']\<rparr>)) \<and>
         (\<exists>new. events (snd (main m env w)) = events w @ new \<and>
                Called_pyenv_versions \<notin> set new \<and> Read_pyproject \<notin> set new \<and>
                (\<forall>c. Wrote_pyproject c \<notin> set new) \<and>
                (\<forall>c. Ran_shell c \<in> set new \<longrightarrow> c = pdm_use_command m)) \<and>
         (\<forall>p. string_literal_value p = Some m \<longrightarrow> hook p env w = Some (main m env w))"
proof -
  from assms have s: "strip m \<noteq> []" by (simp add: strip_blank)
  then have d: "determine_min_python m env w = (Inr m, w)"
    by (simp add: determine_min_python_def)
  have n: "nul \<in> set (pdm_use_command m) \<longleftrightarrow> nul \<in> set m"
    by (auto simp: pdm_use_command_def nul_def)
  have mn: "main m env w =
          (if nul \<in> set m then (Inl Value_error, w)
           else if fst (shell env (pdm_use_command m) (pyproject w)) \<noteq> 0 then
             (Inl (Called_process_error (fst (shell env (pdm_use_command m) (pyproject w)))
                     (pdm_use_command m)),
              \<lparr>pyproject = snd (shell env (pdm_use_command m) (pyproject w)),
               events = events w @ [Ran_shell (pdm_use_command m)]\<rparr>)
           else
             (Inr (),
              \<lparr>pyproject = snd (shell env (pdm_use_command m) (pyproject w)),
               events = events w @
                 [Ran_shell (pdm_use_command m),
                  Printed (''Using Python version specified in pyproject.toml: '' @ m),
                  Printed ''Project setup complete!'']\<rparr>))"
    by (simp add: main_def d n Let_def record_event_def split: prod.splits)
  have ev: "\<exists>new. events (snd (main m env w)) = events w @ new \<and>
                Called_pyenv_versions \<notin> set new \<and> Read_pyproject \<notin> set new \<and>
                (\<forall>c. Wrote_pyproject c \<notin> set new) \<and>
                (\<forall>c. Ran_shell c \<in> set new \<longrightarrow> c = pdm_use_command m)"
    by (simp add: mn)
  have hk: "\<forall>p. string_literal_value p = Some m \<longrightarrow> hook p env w = Some (main m env w)"
    by (simp add: hook_def)
  from d mn ev hk show ?thesis by (intro conjI)
qed

text \<open>
  A placeholder with a leading space is not blank, and it reaches the command line with
  its space.
\<close>

theorem given_version_only_activates_witness:
  "\<not> is_space (CHR ''>'') \<and> string_literal_value '' >=3.10'' = Some '' >=3.10'' \<and>
   hook '' >=3.10'' (posix_environment (Completed 0 ''3.11.0''))
     \<lparr>pyproject = Text (sample_pyproject ''>=3.7''), events = []\<rparr> =
   Some (Inr (),
    \<lparr>pyproject = Text (sample_pyproject ''>=3.7''),
     events = [Ran_shell ''pdm use $(pyenv prefix  >=3.10)/bin/python'',
               Printed ''Using Python version specified in pyproject.toml:  >=3.10'',
               Printed ''Project setup complete!'']\<rparr>)"
proof -
  let ?env = "posix_environment (Completed 0 ''3.11.0'')"
  let ?w = "\<lparr>pyproject = Text (sample_pyproject ''>=3.7''), events = []\<rparr>"
  have c: "\<not> is_space (CHR ''>'')" by code_simp
  then have s: "\<exists>c\<in>set '' >=3.10''. \<not> is_space c" by simp
  have v: "string_literal_value '' >=3.10'' = Some '' >=3.10''" by code_simp
  have n: "nul \<notin> set '' >=3.10''" by (simp add: nul_def)
  from given_version_only_activates [OF s, of ?env ?w] v
  have "hook '' >=3.10'' ?env ?w = Some (main '' >=3.10'' ?env ?w)"
    and "main '' >=3.10'' ?env ?w =
      (if nul \<in> set '' >=3.10'' then (Inl Value_error, ?w)
       else if fst (shell ?env (pdm_use_command '' >=3.10'') (pyproject ?w)) \<noteq> 0 then
         (Inl (Called_process_error (fst (shell ?env (pdm_use_command '' >=3.10'') (pyproject ?w)))
                 (pdm_use_command '' >=3.10'')),
          \<lparr>pyproject = snd (shell ?env (pdm_use_command '' >=3.10'') (pyproject ?w)),
           events = events ?w @ [Ran_shell (pdm_use_command '' >=3.10'')]\<rparr>)
       else
         (Inr (),
          \<lparr>pyproject = snd (shell ?env (pdm_use_command '' >=3.10'') (pyproject ?w)),
           events = events ?w @
             [Ran_shell (pdm_use_command '' >=3.10''),
              Printed (''Using Python version specified in pyproject.toml: '' @ '' >=3.10''),
              Printed ''Project setup complete!'']\<rparr>))"
    by blast+
  with c v n show ?thesis
    by (simp add: posix_environment_def every_command_succeeds_def pdm_use_command_def)
qed

text \<open>
  Claim C10 as stated fails for the placeholder made of a backslash and the letter t.
  It holds two characters that are not white space, but the value of the literal is a
  tab, which is blank: the script calls \<open>pyenv versions\<close> and rewrites \<open>pyproject.toml\<close>.
\<close>

theorem escaped_tab_placeholder:
  "\<not> is_space backslash \<and> \<not> is_space (CHR ''t'') \<and>
   string_literal_value [backslash, CHR ''t''] = Some [CHR 0x09] \<and>
   hook [backslash, CHR ''t''] (posix_environment (Completed 0 ''3.9.1''))
     \<lparr>pyproject = Text (sample_pyproject ''>=3.7''), events = []\<rparr> =
   Some (Inr (),
    \<lparr>pyproject = Text (sample_pyproject ''>=3.9''),
     events = [Called_pyenv_versions,
               Printed ''Using latest installed Python version: >=3.9'',
               Read_pyproject,
               Wrote_pyproject (sample_pyproject ''>=3.9''),
               Ran_shell ''pdm use $(pyenv prefix >=3.9)/bin/python'',
               Printed ''Using Python version specified in pyproject.toml: >=3.9'',
               Printed ''Project setup complete!'']\<rparr>)"
  by code_simp

subsection \<open>The first end-to-end scenario\<close>

lemma three_lines:
  "splitlines (strip ''3.9.1\<newline>3.10.4\<newline>3.11.0\<newline>'') = [''3.9.1'', ''3.10.4'', ''3.11.0'']"
  by code_simp

lemma three_latest:
  "get_latest_installed_python_version [''3.9.1'', ''3.10.4'', ''3.11.0''] = Inr (Some ''3.11'')"
  by code_simp

lemma sample_latest:
  "sub_all (map Lit (assignment ''>=3.11'')) (sample_pyproject ''>=3.8'') = sample_pyproject ''>=3.11''"
  by code_simp

lemma sample_read: "universal_newlines (sample_pyproject ''>=3.8'') = sample_pyproject ''>=3.8''"
  by code_simp

text \<open>
  Claim C8.  With the versions \<open>3.9.1\<close>, \<open>3.10.4\<close>, \<open>3.11.0\<close> listed by \<open>pyenv\<close> and a blank
  placeholder, the selected constraint is \<open>>=3.11\<close>; whatever the file holds, on either
  platform and with any shell, what is read from it is rewritten by the substitution of
  \<open>requires-python = ">=3.11"\<close>; and in the sample file the \<open>requires-python\<close> line reads
  \<open>requires-python = ">=3.11"\<close> after the run.
\<close>

theorem scenario_three_versions:
  "get_latest_installed_python_version [''3.9.1'', ''3.10.4'', ''3.11.0''] = Inr (Some ''3.11'') \<and>
   string_literal_value '''' = Some '''' \<and>
   determine_min_python ''''
      \<lparr>pyenv_versions = Completed 0 ''3.9.1\<newline>3.10.4\<newline>3.11.0\<newline>'', platform = pf,
       write_result = every_write_succeeds, shell = sh\<rparr>
      \<lparr>pyproject = Text on_disk, events = []\<rparr> =
     (Inr ''>=3.11'',
      \<lparr>pyproject = Text (to_disk pf
                           (sub_all (map Lit (assignment ''>=3.11'')) (universal_newlines on_disk))),
       events = [Called_pyenv_versions,
                 Printed ''Using latest installed Python version: >=3.11'',
                 Read_pyproject,
                 Wrote_pyproject
                   (sub_all (map Lit (assignment ''>=3.11'')) (universal_newlines on_disk))]\<rparr>) \<and>
   sub_all (map Lit (assignment ''>=3.11'')) (sample_pyproject ''>=3.8'')
     = sample_pyproject ''>=3.11'' \<and>
   split_on newline (sample_pyproject ''>=3.11'') ! 2 = ''requires-python = '' @ quoted ''>=3.11'' \<and>
   map_option (\<lambda>r. pyproject (snd r))
     (hook '''' (posix_environment (Completed 0 ''3.9.1\<newline>3.10.4\<newline>3.11.0\<newline>''))
        \<lparr>pyproject = Text (sample_pyproject ''>=3.8''), events = []\<rparr>)
     = Some (Text (sample_pyproject ''>=3.11''))"
proof -
  let ?out = "''3.9.1\<newline>3.10.4\<newline>3.11.0\<newline>''"
  let ?T = "map Lit (assignment ''>=3.11'')"
  have g: "\<And>pf sh w. get_installed_python_versions
             \<lparr>pyenv_versions = Completed 0 ?out, platform = pf,
              write_result = every_write_succeeds, shell = sh\<rparr> w
        = (Inr [''3.9.1'', ''3.10.4'', ''3.11.0''], record_event Called_pyenv_versions w)"
    by (simp add: get_installed_python_versions_def Let_def three_lines)
  have b: "backslash \<notin> set ''>=3.11''" by (simp add: backslash_def)
  have s: "strip '''' = []" by (simp add: strip_def)
  have v: "string_literal_value '''' = Some ''''" by simp
  have u: "\<And>pf sh w on_disk. pyproject w = Text on_disk \<Longrightarrow>
      update_pyproject_toml ''>=3.11''
        \<lparr>pyenv_versions = Completed 0 ?out, platform = pf,
         write_result = every_write_succeeds, shell = sh\<rparr> w =
      (Inr (), \<lparr>pyproject = Text (to_disk pf (sub_all ?T (universal_newlines on_disk))),
                events = events w @
                  [Read_pyproject, Wrote_pyproject (sub_all ?T (universal_newlines on_disk))]\<rparr>)"
    using update_written [OF _ assignment_template [OF b]]
    by (simp add: every_write_succeeds_def)
  have d: "\<And>pf sh on_disk. determine_min_python ''''
      \<lparr>pyenv_versions = Completed 0 ?out, platform = pf,
       write_result = every_write_succeeds, shell = sh\<rparr>
      \<lparr>pyproject = Text on_disk, events = []\<rparr> =
     (Inr ''>=3.11'',
      \<lparr>pyproject = Text (to_disk pf (sub_all ?T (universal_newlines on_disk))),
       events = [Called_pyenv_versions,
                 Printed ''Using latest installed Python version: >=3.11'',
                 Read_pyproject,
                 Wrote_pyproject (sub_all ?T (universal_newlines on_disk))]\<rparr>)"
    by (simp add: determine_min_python_def g three_latest s Let_def u record_event_def)
  have l: "split_on newline (sample_pyproject ''>=3.11'') ! 2
             = ''requires-python = '' @ quoted ''>=3.11''"
    by code_simp
  have n: "nul \<notin> set (pdm_use_command ''>=3.11'')" by (simp add: pdm_use_command_def nul_def)
  have m: "map_option (\<lambda>r. pyproject (snd r))
     (hook '''' (posix_environment (Completed 0 ?out))
        \<lparr>pyproject = Text (sample_pyproject ''>=3.8''), events = []\<rparr>)
        = Some (Text (sample_pyproject ''>=3.11''))"
    using n
    by (simp add: hook_def main_def posix_environment_def d Let_def record_event_def
          sample_read sample_latest to_disk_posix every_command_succeeds_def)
  show ?thesis by (intro conjI) (rule three_latest v d l m sample_latest)+
qed
subsection \<open>The versions that \<open>main\<close> passes on\<close>

text \<open>
  \<open>main\<close> calls \<open>update_pyproject_toml\<close> with \<open>>=3.8\<close> or with \<open>>=\<close> and a selected
  version.  Neither holds a backslash or a line break, so the template of such a call
  is the assignment itself, letter by letter, and the idempotence below covers every
  call the script makes.
\<close>

lemma digits_plain:
  "list_all is_digit a \<Longrightarrow>
   newline \<notin> set a \<and> carriage_return \<notin> set a \<and> backslash \<notin> set a"
  by (induction a) (auto simp: is_digit_def newline_def carriage_return_def backslash_def)

lemma selected_version_plain:
  assumes "get_latest_installed_python_version vs = Inr (Some l)"
  shows "newline \<notin> set (''>='' @ l) \<and> carriage_return \<notin> set (''>='' @ l) \<and>
         backslash \<notin> set (''>='' @ l)"
proof -
  let ?v = "last (filter version_match vs)"
  from assms have ne: "filter version_match vs \<noteq> []" and l: "l = major_minor ?v"
    by (auto simp: get_latest_installed_python_version_def last_item_def Let_def split: if_splits)
  from ne have "?v \<in> set (filter version_match vs)" by (rule last_in_set)
  then have "version_match ?v" by simp
  then obtain a r where a: "list_all is_digit a" "?v = ''3.'' @ a @ CHR ''.'' # r"
    by (rule version_match_shape)
  have "l = ''3.'' @ a" using major_minor_shape [OF a(1), of r] a(2) l by simp
  with digits_plain [OF a(1)] show ?thesis
    by (simp add: newline_def carriage_return_def backslash_def)
qed

lemma default_version_plain:
  "newline \<notin> set ''>=3.8'' \<and> carriage_return \<notin> set ''>=3.8'' \<and> backslash \<notin> set ''>=3.8''"
  by (simp add: newline_def carriage_return_def backslash_def)

lemma assignment_free:
  "z \<notin> set v \<Longrightarrow> z \<notin> set requires_python_key \<Longrightarrow> z \<noteq> dquote \<Longrightarrow> z \<notin> set (assignment v)"
  by (simp add: assignment_def)

lemma key_no_cr: "carriage_return \<notin> set requires_python_key"
  by (simp add: requires_python_key_def carriage_return_def dquote_def)

lemma plain_version_template:
  assumes "backslash \<notin> set v" and "newline \<notin> set v" and "carriage_return \<notin> set v"
    and "parse_template (assignment v) = Inr t"
  shows "Whole_match \<notin> set t \<and> Lit newline \<notin> set t \<and> Lit carriage_return \<notin> set t"
proof -
  from assms(1,4) have t: "t = map Lit (assignment v)" by (simp add: assignment_template)
  have "newline \<notin> set (assignment v)"
    by (intro assignment_free key_no_newline assms(2)) (simp add: newline_def dquote_def)
  moreover have "carriage_return \<notin> set (assignment v)"
    by (intro assignment_free key_no_cr assms(3)) (simp add: carriage_return_def dquote_def)
  ultimately show ?thesis by (auto simp: t)
qed

lemma selected_version_template:
  assumes "get_latest_installed_python_version vs = Inr (Some l)"
    and "parse_template (assignment (''>='' @ l)) = Inr t"
  shows "Whole_match \<notin> set t \<and> Lit newline \<notin> set t \<and> Lit carriage_return \<notin> set t"
  using selected_version_plain [OF assms(1)] assms(2)
  by (intro plain_version_template [of "''>='' @ l"]) simp_all

lemma default_version_template:
  assumes "parse_template (assignment ''>=3.8'') = Inr t"
  shows "Whole_match \<notin> set t \<and> Lit newline \<notin> set t \<and> Lit carriage_return \<notin> set t"
  using default_version_plain assms
  by (intro plain_version_template [of "''>=3.8''"]) simp_all

subsection \<open>Configuration patch\<close>

text \<open>
  Claim C3, as the code has it.  \<open>update_pyproject_toml\<close> replaces every occurrence of
  the pattern, one on each line that has one: the match runs from the first
  \<open>requires-python = "\<close> of the line to the last quote of that line.  Take any version
  string and a file that can be read, whose line ends are those of the platform, and
  let the write succeed.  If the replacement template is malformed, \<open>re.sub\<close> raises and
  nothing is written.  Otherwise the file, which is its lines joined by the line
  separator of the platform, becomes lines joined by that separator again, one for one:
  every line in which the pattern matches nowhere is written as it was, and every other
  line has its match replaced by what the template gives, the text before and behind
  the match kept.
\<close>

theorem patch_frame:
  assumes "pyproject w = Text on_disk" and "native_line_ends (platform env) on_disk"
    and "\<And>t. parse_template (assignment v) = Inr t \<Longrightarrow>
              write_result env (sub_all t (universal_newlines on_disk)) = Written"
  shows "case parse_template (assignment v) of
           Inl e \<Rightarrow> update_pyproject_toml v env w = (Inl e, record_event Read_pyproject w)
         | Inr t \<Rightarrow>
             fst (update_pyproject_toml v env w) = Inr () \<and>
             on_disk = join_lines (linesep (platform env))
                         (split_on newline (universal_newlines on_disk)) \<and>
             pyproject (snd (update_pyproject_toml v env w)) =
               Text (join_lines (linesep (platform env))
                       (map (\<lambda>l. to_disk (platform env) (sub_all t l))
                          (split_on newline (universal_newlines on_disk)))) \<and>
             (\<forall>l\<in>set (split_on newline (universal_newlines on_disk)).
                if has_match l then
                  (\<exists>pre m suf.
                     l = pre @ m @ suf \<and> match_len (m @ suf) = Some (length m) \<and>
                     (\<forall>k<length pre. match_len (drop k l) = None) \<and>
                     sub_all t l = pre @ expand_template t m @ suf)
                else to_disk (platform env) (sub_all t l) = l)"
proof (cases "parse_template (assignment v)")
  case (Inl e)
  with update_malformed [OF assms(1) Inl, of env] show ?thesis by simp
next
  case (Inr t)
  let ?content = "universal_newlines on_disk"
  let ?pf = "platform env"
  have u: "update_pyproject_toml v env w =
     (Inr (), \<lparr>pyproject = Text (to_disk ?pf (sub_all t ?content)),
               events = events w @ [Read_pyproject, Wrote_pyproject (sub_all t ?content)]\<rparr>)"
    using assms(1) Inr assms(3) [OF Inr] by (rule update_written)
  have 1: "fst (update_pyproject_toml v env w) = Inr ()" by (simp add: u)
  have 2: "on_disk = join_lines (linesep ?pf) (split_on newline ?content)"
    using assms(2) to_disk_lines [of ?pf ?content] by (simp add: native_line_ends_def)
  have "to_disk ?pf (sub_all t ?content)
      = join_lines (linesep ?pf) (map (to_disk ?pf) (map (sub_all t) (split_on newline ?content)))"
    using sub_all_by_lines [of t ?content] to_disk_join by simp
  then have 3: "pyproject (snd (update_pyproject_toml v env w)) =
      Text (join_lines (linesep ?pf)
              (map (\<lambda>l. to_disk ?pf (sub_all t l)) (split_on newline ?content)))"
    by (simp add: u comp_def)
  have 4: "if has_match l then
             (\<exists>pre m suf.
                l = pre @ m @ suf \<and> match_len (m @ suf) = Some (length m) \<and>
                (\<forall>k<length pre. match_len (drop k l) = None) \<and>
                sub_all t l = pre @ expand_template t m @ suf)
           else to_disk ?pf (sub_all t l) = l"
    if "l \<in> set (split_on newline ?content)" for l
  proof -
    from that split_on_lines_free [of newline ?content] have nl: "newline \<notin> set l"
      by (auto simp: list_all_iff)
    show ?thesis
    proof (cases "has_match l")
      case True
      with sub_all_matching_line [OF nl True, of t] show ?thesis by (simp only: if_True)
    next
      case False
      then show ?thesis using nl by (simp add: sub_all_no_match to_disk_line)
    qed
  qed
  from 1 2 3 4 show ?thesis by (simp add: Inr)
qed

text \<open>
  In the sample file on a POSIX platform the second line, which has no match, is kept,
  and the file becomes the sample with the new constraint.
\<close>

theorem patch_frame_witness:
  "native_line_ends Posix (sample_pyproject ''>=3.8'') \<and>
   parse_template (assignment ''>=3.11'') = Inr (map Lit (assignment ''>=3.11'')) \<and>
   pyproject (snd (update_pyproject_toml ''>=3.11'' (posix_environment Not_started)
      \<lparr>pyproject = Text (sample_pyproject ''>=3.8''), events = []\<rparr>))
     = Text (sample_pyproject ''>=3.11'') \<and>
   split_on newline (sample_pyproject ''>=3.8'') ! 1 = ''name = '' @ quoted ''demo'' \<and>
   \<not> has_match (''name = '' @ quoted ''demo'') \<and>
   to_disk Posix (sub_all (map Lit (assignment ''>=3.11'')) (''name = '' @ quoted ''demo''))
     = ''name = '' @ quoted ''demo''"
proof -
  let ?env = "posix_environment Not_started"
  let ?w = "\<lparr>pyproject = Text (sample_pyproject ''>=3.8''), events = []\<rparr>"
  let ?T = "map Lit (assignment ''>=3.11'')"
  let ?l = "''name = '' @ quoted ''demo''"
  have pf: "platform ?env = Posix" by (simp add: posix_environment_def)
  have a: "pyproject ?w = Text (sample_pyproject ''>=3.8'')" by simp
  have b: "native_line_ends Posix (sample_pyproject ''>=3.8'')"
    by (simp add: native_line_ends_def to_disk_posix sample_read)
  have c: "write_result ?env (sub_all t (universal_newlines (sample_pyproject ''>=3.8''))) = Written"
    for t by (simp add: posix_environment_def every_write_succeeds_def)
  have p: "parse_template (assignment ''>=3.11'') = Inr ?T"
    by (rule assignment_template) (simp add: backslash_def)
  have l1: "split_on newline (sample_pyproject ''>=3.8'') ! 1 = ?l" by code_simp
  have n: "length (split_on newline (sample_pyproject ''>=3.8'')) = 5" by code_simp
  have mem: "?l \<in> set (split_on newline (universal_newlines (sample_pyproject ''>=3.8'')))"
    unfolding sample_read l1 [symmetric] by (rule nth_mem) (simp add: n)
  have h: "\<not> has_match ?l" by code_simp
  note t = patch_frame [OF a b [folded pf] c, of "''>=3.11''", unfolded p sum.case]
  have "join_lines (linesep Posix)
          (map (\<lambda>l. to_disk Posix (sub_all ?T l)) (split_on newline (sample_pyproject ''>=3.8'')))
        = sample_pyproject ''>=3.11''"
    by code_simp
  with t have fl: "pyproject (snd (update_pyproject_toml ''>=3.11'' ?env ?w))
      = Text (sample_pyproject ''>=3.11'')"
    by (simp add: pf sample_read)
  from t mem h have keep: "to_disk Posix (sub_all ?T ?l) = ?l" by (auto simp: pf)
  show ?thesis by (intro conjI) (rule b p fl l1 h keep)+
qed

text \<open>
  Claim C3 as stated fails in three ways.  On a file with two assignments both are
  replaced, where a substitution of the first occurrence only would keep the second.
  On a file with carriage returns before its line feeds, written back on POSIX with
  line feeds only, the first line loses its carriage return although the pattern
  matches nowhere in it.  And when the write breaks off, the last line is lost although
  the pattern matches nowhere in it.
\<close>

theorem patch_replaces_every_occurrence:
  "pyproject (snd (update_pyproject_toml ''>=3.11'' (posix_environment Not_started)
      \<lparr>pyproject = Text (assignment ''>=3.6'' @ newline # assignment ''>=3.7''), events = []\<rparr>))
     = Text (assignment ''>=3.11'' @ newline # assignment ''>=3.11'') \<and>
   sub_first (map Lit (assignment ''>=3.11'')) (assignment ''>=3.6'' @ newline # assignment ''>=3.7'')
     = assignment ''>=3.11'' @ newline # assignment ''>=3.7'' \<and>
   assignment ''>=3.11'' @ newline # assignment ''>=3.11''
     \<noteq> assignment ''>=3.11'' @ newline # assignment ''>=3.7'' \<and>
   pyproject (snd (update_pyproject_toml ''>=3.11'' (posix_environment Not_started)
      \<lparr>pyproject = Text (''[project]'' @ carriage_return # newline # assignment ''>=3.7''),
       events = []\<rparr>))
     = Text (''[project]'' @ newline # assignment ''>=3.11'') \<and>
   split_on newline (''[project]'' @ carriage_return # newline # assignment ''>=3.7'') ! 0
     = ''[project]'' @ [carriage_return] \<and>
   \<not> has_match (''[project]'' @ [carriage_return]) \<and>
   split_on newline (''[project]'' @ newline # assignment ''>=3.11'') ! 0 = ''[project]'' \<and>
   pyproject (snd (update_pyproject_toml ''>=3.11'' (environment_with_disk Not_started small_disk)
      \<lparr>pyproject = Text (assignment ''>=3.7'' @ newline # ''# end''), events = []\<rparr>))
     = Text (requires_python_key @ ''>='') \<and>
   split_on newline (assignment ''>=3.7'' @ newline # ''# end'') = [assignment ''>=3.7'', ''# end''] \<and>
   \<not> has_match ''# end'' \<and>
   split_on newline (requires_python_key @ ''>='') = [requires_python_key @ ''>='']"
  by code_simp

text \<open>
  Claim C7, as the code has it.  Take a version string whose replacement template is
  malformed, or has no group reference and gives neither a line feed nor a carriage
  return, be it written in the version or by an escape; and let no write break off
  after the file was cut to length 0.  Then a second \<open>update_pyproject_toml\<close> with the
  same version ends as the first one did and leaves the file as the first one left it,
  whatever the file held.
\<close>

theorem patch_idempotent:
  assumes tpl: "\<And>t. parse_template (assignment v) = Inr t \<Longrightarrow>
              Whole_match \<notin> set t \<and> Lit newline \<notin> set t \<and> Lit carriage_return \<notin> set t"
    and wr: "\<And>on_disk t e left. pyproject w = Text on_disk \<Longrightarrow>
              parse_template (assignment v) = Inr t \<Longrightarrow>
              write_result env (sub_all t (universal_newlines on_disk)) \<noteq> Failed e left"
  shows "fst (update_pyproject_toml v env (snd (update_pyproject_toml v env w)))
           = fst (update_pyproject_toml v env w) \<and>
         pyproject (snd (update_pyproject_toml v env (snd (update_pyproject_toml v env w))))
           = pyproject (snd (update_pyproject_toml v env w))"
proof (cases "pyproject w")
  case (Unreadable e)
  then have "pyproject (record_event Read_pyproject w) = Unreadable e"
    by (simp add: record_event_def)
  then have "update_pyproject_toml v env (record_event Read_pyproject w)
      = (Inl e, record_event Read_pyproject (record_event Read_pyproject w))"
    by (rule update_unreadable)
  then show ?thesis
    by (simp add: update_unreadable [OF Unreadable] record_event_def)
next
  case (Text on_disk)
  show ?thesis
  proof (cases "parse_template (assignment v)")
    case (Inl e)
    have "pyproject (record_event Read_pyproject w) = Text on_disk"
      using Text by (simp add: record_event_def)
    then have "update_pyproject_toml v env (record_event Read_pyproject w)
        = (Inl e, record_event Read_pyproject (record_event Read_pyproject w))"
      using Inl by (rule update_malformed)
    then show ?thesis
      by (simp add: update_malformed [OF Text Inl] record_event_def)
  next
    case (Inr t)
    let ?u = "sub_all t (universal_newlines on_disk)"
    from tpl [OF Inr] have w: "Whole_match \<notin> set t" and n: "Lit newline \<notin> set t"
      and c: "Lit carriage_return \<notin> set t" by simp_all
    from template_shape [OF Inr w] obtain x
      where x: "\<And>m. expand_template t m = assignment x" and xs: "\<forall>c\<in>set x. Lit c \<in> set t"
      by blast
    from xs n c have xn: "newline \<notin> set x" and xc: "carriage_return \<notin> set x" by auto
    have lit: "sub_all t s = sub_all (map Lit (assignment x)) s" for s
      using sub_all_literal [OF w, of s] x [of "[]"] by simp
    have ac: "carriage_return \<notin> set (assignment x)"
      by (intro assignment_free key_no_cr xc) (simp add: carriage_return_def dquote_def)
    have uc: "carriage_return \<notin> set ?u"
      unfolding lit using ac universal_newlines_no_cr by (rule sub_all_keeps_free)
    have idem: "sub_all t ?u = ?u"
      unfolding lit by (rule sub_all_idem [OF xn])
    show ?thesis
    proof (cases "write_result env ?u")
      case Written
      let ?w1 = "\<lparr>pyproject = Text (to_disk (platform env) ?u),
                 events = events w @ [Read_pyproject, Wrote_pyproject ?u]\<rparr>"
      have 1: "update_pyproject_toml v env w = (Inr (), ?w1)"
        using Text Inr Written by (rule update_written)
      have rb: "universal_newlines (to_disk (platform env) ?u) = ?u"
        using uc by (rule read_back)
      have "pyproject ?w1 = Text (to_disk (platform env) ?u)" by simp
      from update_written [OF this Inr, of env] Written
      have 2: "update_pyproject_toml v env ?w1 =
          (Inr (), \<lparr>pyproject = Text (to_disk (platform env) ?u),
                    events = events ?w1 @ [Read_pyproject, Wrote_pyproject ?u]\<rparr>)"
        by (simp add: rb idem)
      show ?thesis by (simp add: 1 2)
    next
      case (Refused e)
      let ?w1 = "\<lparr>pyproject = Text on_disk,
                 events = events w @ [Read_pyproject, Wrote_pyproject ?u]\<rparr>"
      have 1: "update_pyproject_toml v env w = (Inl e, ?w1)"
        using Text Inr Refused by (rule update_refused)
      have "pyproject ?w1 = Text on_disk" by simp
      from update_refused [OF this Inr Refused]
      have 2: "update_pyproject_toml v env ?w1 =
          (Inl e, \<lparr>pyproject = Text on_disk,
                   events = events ?w1 @ [Read_pyproject, Wrote_pyproject ?u]\<rparr>)" .
      show ?thesis by (simp add: 1 2)
    next
      case (Failed e left)
      with wr [OF Text Inr, of e left] show ?thesis by blast
    qed
  qed
qed

text \<open>On the sample file the second run leaves what the first run wrote.\<close>

theorem patch_idempotent_witness:
  "parse_template (assignment ''>=3.11'') = Inr (map Lit (assignment ''>=3.11'')) \<and>
   Whole_match \<notin> set (map Lit (assignment ''>=3.11'')) \<and>
   Lit newline \<notin> set (map Lit (assignment ''>=3.11'')) \<and>
   Lit carriage_return \<notin> set (map Lit (assignment ''>=3.11'')) \<and>
   pyproject (snd (update_pyproject_toml ''>=3.11'' (posix_environment Not_started)
      \<lparr>pyproject = Text (sample_pyproject ''>=3.8''), events = []\<rparr>))
     = Text (sample_pyproject ''>=3.11'') \<and>
   pyproject (snd (update_pyproject_toml ''>=3.11'' (posix_environment Not_started)
      (snd (update_pyproject_toml ''>=3.11'' (posix_environment Not_started)
         \<lparr>pyproject = Text (sample_pyproject ''>=3.8''), events = []\<rparr>))))
     = Text (sample_pyproject ''>=3.11'')"
proof -
  let ?env = "posix_environment Not_started"
  let ?w = "\<lparr>pyproject = Text (sample_pyproject ''>=3.8''), events = []\<rparr>"
  let ?T = "map Lit (assignment ''>=3.11'')"
  have b: "backslash \<notin> set ''>=3.11''" by (simp add: backslash_def)
  have n: "newline \<notin> set ''>=3.11''" by (simp add: newline_def)
  have c: "carriage_return \<notin> set ''>=3.11''" by (simp add: carriage_return_def)
  have p: "parse_template (assignment ''>=3.11'') = Inr ?T" using b by (rule assignment_template)
  have tpl: "Whole_match \<notin> set t \<and> Lit newline \<notin> set t \<and> Lit carriage_return \<notin> set t"
    if "parse_template (assignment ''>=3.11'') = Inr t" for t
    using b n c that by (rule plain_version_template)
  have wr: "write_result ?env s \<noteq> Failed e left" for s e left
    by (simp add: posix_environment_def every_write_succeeds_def)
  have a: "pyproject ?w = Text (sample_pyproject ''>=3.8'')" by simp
  have wok: "write_result ?env (sub_all ?T (universal_newlines (sample_pyproject ''>=3.8''))) = Written"
    by (simp add: posix_environment_def every_write_succeeds_def)
  have pf: "platform ?env = Posix" by (simp add: posix_environment_def)
  have u: "pyproject (snd (update_pyproject_toml ''>=3.11'' ?env ?w)) = Text (sample_pyproject ''>=3.11'')"
    by (simp add: update_written [OF a p wok] pf to_disk_posix sample_read sample_latest)
  from patch_idempotent [of "''>=3.11''" ?w ?env, OF tpl wr] u
  have v: "pyproject (snd (update_pyproject_toml ''>=3.11'' ?env
          (snd (update_pyproject_toml ''>=3.11'' ?env ?w)))) = Text (sample_pyproject ''>=3.11'')"
    by simp
  from tpl [OF p] have t1: "Whole_match \<notin> set ?T" and t2: "Lit newline \<notin> set ?T"
    and t3: "Lit carriage_return \<notin> set ?T" by simp_all
  show ?thesis by (intro conjI) (rule p t1 t2 t3 u v)+
qed

text \<open>
  Claim C7 as stated fails for three kinds of version strings, on a POSIX platform.  A
  version with a line feed can put a fresh assignment on a line of its own, which the
  second run replaces again.  A version with a carriage return is written with it and
  read back with a line feed in its place: the second run finds no match and writes the
  line feed.  A version with a reference to group 0 copies the match into the
  replacement, and the text grows with every run.  The claim also fails when the first
  write breaks off: the second run patches what was left, a shorter text, which fits.
\<close>

theorem patch_not_idempotent:
  "pyproject (snd (update_pyproject_toml (newline # requires_python_key @ ''x'')
      (posix_environment Not_started)
      \<lparr>pyproject = Text (assignment ''''), events = []\<rparr>))
     = Text (assignment (newline # requires_python_key @ ''x'')) \<and>
   pyproject (snd (update_pyproject_toml (newline # requires_python_key @ ''x'')
      (posix_environment Not_started)
      (snd (update_pyproject_toml (newline # requires_python_key @ ''x'')
         (posix_environment Not_started)
         \<lparr>pyproject = Text (assignment ''''), events = []\<rparr>))))
     = Text (requires_python_key @ newline # assignment (newline # requires_python_key @ ''x'')) \<and>
   assignment (newline # requires_python_key @ ''x'')
     \<noteq> requires_python_key @ newline # assignment (newline # requires_python_key @ ''x'') \<and>
   pyproject (snd (update_pyproject_toml [CHR ''a'', carriage_return, CHR ''b'']
      (posix_environment Not_started)
      \<lparr>pyproject = Text (assignment ''x''), events = []\<rparr>))
     = Text (assignment [CHR ''a'', carriage_return, CHR ''b'']) \<and>
   pyproject (snd (update_pyproject_toml [CHR ''a'', carriage_return, CHR ''b'']
      (posix_environment Not_started)
      (snd (update_pyproject_toml [CHR ''a'', carriage_return, CHR ''b'']
         (posix_environment Not_started)
         \<lparr>pyproject = Text (assignment ''x''), events = []\<rparr>))))
     = Text (assignment [CHR ''a'', newline, CHR ''b'']) \<and>
   assignment [CHR ''a'', carriage_return, CHR ''b''] \<noteq> assignment [CHR ''a'', newline, CHR ''b''] \<and>
   pyproject (snd (update_pyproject_toml (backslash # ''g<0>'')
      (posix_environment Not_started)
      \<lparr>pyproject = Text (assignment ''x''), events = []\<rparr>))
     = Text (assignment (assignment ''x'')) \<and>
   pyproject (snd (update_pyproject_toml (backslash # ''g<0>'')
      (posix_environment Not_started)
      (snd (update_pyproject_toml (backslash # ''g<0>'')
         (posix_environment Not_started)
         \<lparr>pyproject = Text (assignment ''x''), events = []\<rparr>))))
     = Text (assignment (assignment (assignment ''x''))) \<and>
   assignment (assignment ''x'') \<noteq> assignment (assignment (assignment ''x'')) \<and>
   pyproject (snd (update_pyproject_toml [CHR ''a'', dquote, CHR ''b'']
      (environment_with_disk Not_started small_disk)
      \<lparr>pyproject = Text (assignment ''x'' @ newline # ''#''), events = []\<rparr>))
     = Text (assignment ''a'') \<and>
   pyproject (snd (update_pyproject_toml [CHR ''a'', dquote, CHR ''b'']
      (environment_with_disk Not_started small_disk)
      (snd (update_pyproject_toml [CHR ''a'', dquote, CHR ''b'']
         (environment_with_disk Not_started small_disk)
         \<lparr>pyproject = Text (assignment ''x'' @ newline # ''#''), events = []\<rparr>))))
     = Text (assignment [CHR ''a'', dquote, CHR ''b'']) \<and>
   assignment ''a'' \<noteq> assignment [CHR ''a'', dquote, CHR ''b'']"
  by code_simp

end
